theory Spec2Isabelle
  imports Main
begin

section \<open>Data model\<close>

text \<open>
  The relay keeps its durable state in an SQLite store and a derived, expiring projection
  of it in a disk cache. Each handler is modelled as a function from the state before the
  event to the state after it, together with what the handler returned or raised.
  Timestamps (\<open>CURRENT_TIMESTAMP\<close>) and random draws are inputs of the operation that
  uses them. A cache entry whose time-to-live has run out is simply absent from the cache
  snapshot an operation starts from.
\<close>

type_synonym user_id = int
type_synonym timestamp = int

text \<open>\<open>telebot.types.User\<close>: the fields the handlers read.\<close>

record tg_user =
  uid :: user_id
  username :: "string option"
  first_name :: string
  last_name :: "string option"

text \<open>\<open>message.reply_to_message\<close>: its author and its message id.\<close>

record reply_ref =
  reply_from :: user_id
  reply_message_id :: int

text \<open>\<open>telebot.types.Message\<close>: the fields the handlers read.\<close>

record message =
  from_user :: tg_user
  chat_id :: int
  message_id :: int
  message_thread_id :: "int option"
  msg_text :: "string option"
  content_type :: string
  reply_to_message :: "reply_ref option"

subsection \<open>Persistent store\<close>

text \<open>Table \<open>topics(user_id, thread_id)\<close>; its constraints are not declared in the sources
  at hand, so it is a list of rows in insertion order.\<close>

record topic_row =
  t_user_id :: user_id
  t_thread_id :: int

text \<open>Table \<open>messages(received_id, forwarded_id, topic_id, in_group)\<close>.\<close>

record msg_row =
  received_id :: int
  forwarded_id :: int
  topic_id :: int
  in_group :: bool

text \<open>Table \<open>blocked_users\<close>, keyed by \<open>user_id\<close> (its primary key).\<close>

record blocked_row =
  b_username :: "string option"
  b_first_name :: "string option"
  b_last_name :: "string option"
  block_reason :: "string option"
  blocked_at :: "timestamp option"

text \<open>Table \<open>verification_attempts\<close>, keyed by \<open>user_id\<close> (declared \<open>UNIQUE\<close>).\<close>

record attempt_row =
  attempt_count :: int
  last_attempt_time :: "timestamp option"
  blocked_by_attempts :: bool

text \<open>Table \<open>appeal_requests\<close>, keyed by \<open>user_id\<close> (declared \<open>UNIQUE\<close>).\<close>

record appeal_row =
  appeal_time :: "timestamp option"
  status :: string
  admin_id :: "user_id option"
  handled_at :: "timestamp option"

text \<open>The store. Of \<open>verified_users\<close> the handlers only test, create and delete the
  presence of a user id, so the table is the set of ids present.\<close>

record store =
  topics :: "topic_row list"
  messages :: "msg_row list"
  blocked_users :: "user_id \<rightharpoonup> blocked_row"
  verification_attempts :: "user_id \<rightharpoonup> attempt_row"
  appeal_requests :: "user_id \<rightharpoonup> appeal_row"
  verified_users :: "user_id set"

subsection \<open>Ephemeral cache\<close>

text \<open>A stored challenge answer: the integer sum of a math challenge or the digit string of
  an image challenge.\<close>

datatype captcha_value = MathAnswer int | ImageCode string

text \<open>
  The cache is a key-value store whose keys are built from a fixed prefix and an integer
  id. Each key family is one field: \<open>captcha_{user_id}\<close>, \<open>verified_{user_id}\<close>,
  \<open>appeal_verification_{user_id}\<close>, \<open>captcha_rate_limit_{user_id}\<close>,
  \<open>chat_{user_id}_threadid\<close>, \<open>threadid_{thread_id}_userid\<close>, and the \<open>setting_*\<close> keys.
\<close>

record kv_cache =
  captcha :: "user_id \<rightharpoonup> captcha_value"
  verified :: "user_id \<rightharpoonup> bool"
  appeal_verification :: "user_id \<rightharpoonup> bool"
  captcha_rate_limit :: "user_id \<rightharpoonup> bool"
  chat_threadid :: "user_id \<rightharpoonup> int"
  threadid_userid :: "int \<rightharpoonup> user_id"
  setting_captcha :: "string option"
  setting_appeal_mode :: "string option"
  setting_blocked_user_reply_enabled :: "string option"
  setting_blocked_user_reply_message :: "string option"

subsection \<open>Transport events\<close>

text \<open>The texts the handlers send, one constructor per message template of the source.\<close>

datatype notice =
    ClickToVerify
  | ImageChallenge
  | IncorrectAppealAnswer
  | BlockedAppealOffer
  | AutoBlockedAppealOffer
  | IncorrectAnswer int string
  | VerificationSuccessful
  | MessageNotSent
  | MathProblem string
  | InvalidCaptchaSetting "string option"
  | AppealAlreadyPending
  | AppealAlreadyApproved
  | AppealAlreadyRejected
  | AppealSubmitted
  | AppealAutoApproved
  | AutoAppealNotification
  | NewAppealRequest
  | BlockedAutoReply string
  | UserInfo
  | ForwardFailed
  | AutoResponse string
  | InvalidUserId
  | NotBlocked
  | CompleteVerificationToAppeal
  | AppealVerificationRequired "string option"
  | AppealApprovedUser
  | AppealApprovedAdmin
  | AppealRejectedUser
  | AppealRejectedAdmin
  | InvalidAction

datatype event =
    SendMessage int notice
  | AnswerCallback "notice option"
  | EditMessage notice
  | DeleteMessage
  | Relay int "int option" "int option"
  | ForwardRaw int int

text \<open>The state a handler runs in: the store, the cache and the transport calls made so
  far. Calls to the transport that the source does not guard with \<open>try\<close> are taken to
  succeed; the ones it guards have their result as an input.\<close>

record state =
  db :: store
  cache :: kv_cache
  outbox :: "event list"

definition emit :: "event \<Rightarrow> state \<Rightarrow> state" where
  "emit ev s = s\<lparr>outbox := outbox s @ [ev]\<rparr>"

text \<open>Python exceptions that the modelled code lets escape.\<close>

datatype error = ValueError | IntegrityError | KeyError | TypeError

datatype 'a outcome = Returned 'a | Raised error

text \<open>Result of \<open>_send_message_by_type\<close>'s call to the transport.\<close>

datatype send_result = Sent int | ApiTelegramException string

text \<open>What an operation draws from outside: the clock, the random operands of the next math
  challenge, the digits of the next image challenge, the transport's answers, and the
  verdicts of the external spam detector and auto-response matcher.\<close>

record env =
  now :: timestamp
  group_id :: int
  num1 :: int
  num2 :: int
  captcha_text :: string
  transport :: send_result
  create_forum_topic :: "int option"
  spam_detected :: bool
  spam_path :: "state \<Rightarrow> state"
  auto_response :: "string option"

section \<open>Python strings\<close>

text \<open>\<open>str(n)\<close> for an integer: decimal digits, with a leading minus sign when negative.\<close>

definition digit_char :: "nat \<Rightarrow> char" where
  "digit_char d = ''0123456789'' ! d"

fun str_nat :: "nat \<Rightarrow> string" where
  "str_nat n = (if n < 10 then [digit_char n] else str_nat (n div 10) @ [digit_char (n mod 10)])"

declare str_nat.simps [simp del]

definition str_int :: "int \<Rightarrow> string" where
  "str_int i = (if i < 0 then CHR ''-'' # str_nat (nat (- i)) else str_nat (nat i))"

text \<open>\<open>str(message.text)\<close>; the text of a message without text is \<open>None\<close>.\<close>

definition str_text :: "string option \<Rightarrow> string" where
  "str_text t = (case t of None \<Rightarrow> ''None'' | Some x \<Rightarrow> x)"

definition str_captcha :: "captcha_value \<Rightarrow> string" where
  "str_captcha c = (case c of MathAnswer n \<Rightarrow> str_int n | ImageCode x \<Rightarrow> x)"

text \<open>\<open>sub in s\<close> on strings.\<close>

fun str_contains :: "string \<Rightarrow> string \<Rightarrow> bool" where
  "str_contains sub [] = (sub = [])"
| "str_contains sub (c # cs) = (take (length sub) (c # cs) = sub \<or> str_contains sub cs)"

section \<open>Captcha manager\<close>

text \<open>
  \<open>CaptchaManager.generate_captcha(user_id, captcha_type)\<close>. The result is the challenge
  text for a math challenge and \<open>None\<close> for the kinds that send their challenge themselves.
\<close>

definition generate_captcha ::
    "env \<Rightarrow> user_id \<Rightarrow> string option \<Rightarrow> state \<Rightarrow> string option outcome \<times> state" where
  "generate_captcha e u captcha_type s =
     (if captcha_type = Some ''math'' then
        (Returned (Some (str_int (num1 e) @ '' + '' @ str_int (num2 e) @ '' = ?'')),
         s\<lparr>cache := (cache s)\<lparr>captcha := (captcha (cache s))(u \<mapsto> MathAnswer (num1 e + num2 e))\<rparr>\<rparr>)
      else if captcha_type = Some ''button'' then
        (Returned None, emit (SendMessage u ClickToVerify) s)
      else if captcha_type = Some ''image'' then
        (Returned None,
         emit (SendMessage u ImageChallenge)
           (s\<lparr>cache := (cache s)\<lparr>captcha := (captcha (cache s))(u \<mapsto> ImageCode (captcha_text e))\<rparr>\<rparr>))
      else (Raised ValueError, s))"

text \<open>\<open>CaptchaManager.verify_captcha(user_id, answer)\<close>.\<close>

definition verify_captcha :: "user_id \<Rightarrow> string option \<Rightarrow> state \<Rightarrow> bool" where
  "verify_captcha u answer s =
     (case captcha (cache s) u of
        None \<Rightarrow> False
      | Some c \<Rightarrow> str_text answer = str_captcha c)"

text \<open>\<open>CaptchaManager.is_user_verified(user_id, db)\<close>: the cached flag when there is one,
  else the store, whose answer is then cached.\<close>

definition is_user_verified :: "user_id \<Rightarrow> state \<Rightarrow> bool \<times> state" where
  "is_user_verified u s =
     (case verified (cache s) u of
        Some v \<Rightarrow> (v, s)
      | None \<Rightarrow>
          (let v = (u \<in> verified_users (db s))
           in (v, s\<lparr>cache := (cache s)\<lparr>verified := (verified (cache s))(u \<mapsto> v)\<rparr>\<rparr>)))"

text \<open>\<open>CaptchaManager.set_user_verified(user_id, db)\<close>.\<close>

definition set_user_verified :: "user_id \<Rightarrow> state \<Rightarrow> state" where
  "set_user_verified u s =
     s\<lparr>db := (db s)\<lparr>verified_users := insert u (verified_users (db s))\<rparr>,
       cache := (cache s)\<lparr>verified := (verified (cache s))(u \<mapsto> True)\<rparr>\<rparr>"

text \<open>\<open>CaptchaManager.remove_user_verification(user_id, db)\<close>.\<close>

definition remove_user_verification :: "user_id \<Rightarrow> state \<Rightarrow> state" where
  "remove_user_verification u s =
     s\<lparr>db := (db s)\<lparr>verified_users := verified_users (db s) - {u}\<rparr>,
       cache := (cache s)\<lparr>verified := (verified (cache s))(u := None)\<rparr>\<rparr>"

text \<open>\<open>CaptchaManager.record_attempt(user_id, db)\<close>: the new count and the state.\<close>

definition record_attempt :: "env \<Rightarrow> user_id \<Rightarrow> state \<Rightarrow> int \<times> state" where
  "record_attempt e u s =
     (case verification_attempts (db s) u of
        Some row \<Rightarrow>
          (let new_count = attempt_count row + 1
           in (new_count,
               s\<lparr>db := (db s)\<lparr>verification_attempts := (verification_attempts (db s))
                  (u \<mapsto> row\<lparr>attempt_count := new_count, last_attempt_time := Some (now e)\<rparr>)\<rparr>\<rparr>))
      | None \<Rightarrow>
          (1,
           s\<lparr>db := (db s)\<lparr>verification_attempts := (verification_attempts (db s))
              (u \<mapsto> \<lparr>attempt_count = 1, last_attempt_time = Some (now e),
                     blocked_by_attempts = False\<rparr>)\<rparr>\<rparr>))"

text \<open>\<open>CaptchaManager.get_attempt_count(user_id, db)\<close>.\<close>

definition get_attempt_count :: "user_id \<Rightarrow> state \<Rightarrow> int" where
  "get_attempt_count u s =
     (case verification_attempts (db s) u of Some row \<Rightarrow> attempt_count row | None \<Rightarrow> 0)"

text \<open>\<open>CaptchaManager.reset_attempts(user_id, db)\<close>.\<close>

definition reset_attempts :: "user_id \<Rightarrow> state \<Rightarrow> state" where
  "reset_attempts u s =
     s\<lparr>db := (db s)\<lparr>verification_attempts := (verification_attempts (db s))(u := None)\<rparr>\<rparr>"

text \<open>\<open>CaptchaManager.is_blocked_by_attempts(user_id, db)\<close>.\<close>

definition is_blocked_by_attempts :: "user_id \<Rightarrow> state \<Rightarrow> bool" where
  "is_blocked_by_attempts u s =
     (case verification_attempts (db s) u of Some row \<Rightarrow> blocked_by_attempts row | None \<Rightarrow> False)"

text \<open>\<open>CaptchaManager.block_user_by_attempts(user_id, username, first_name, last_name, db)\<close>:
  flags the attempt row when there is one, replaces the user's \<open>blocked_users\<close> row, and
  removes the verification from store and cache.\<close>

definition block_user_by_attempts ::
    "env \<Rightarrow> user_id \<Rightarrow> string option \<Rightarrow> string option \<Rightarrow> string option \<Rightarrow> state \<Rightarrow> state" where
  "block_user_by_attempts e u uname fname lname s =
     s\<lparr>db := (db s)\<lparr>
          verification_attempts :=
            (case verification_attempts (db s) u of
               Some row \<Rightarrow> (verification_attempts (db s))(u \<mapsto> row\<lparr>blocked_by_attempts := True\<rparr>)
             | None \<Rightarrow> verification_attempts (db s)),
          blocked_users := (blocked_users (db s))
            (u \<mapsto> \<lparr>b_username = uname, b_first_name = fname, b_last_name = lname,
                   block_reason = Some ''auto_attempts'', blocked_at = Some (now e)\<rparr>),
          verified_users := verified_users (db s) - {u}\<rparr>,
       cache := (cache s)\<lparr>verified := (verified (cache s))(u := None)\<rparr>\<rparr>"

section \<open>Relay router: reply correlation\<close>

text \<open>
  \<open>MessageHandler._get_reply_id(message, topic_id, cursor, in_group)\<close>.
  \<open>SELECT ... LIMIT 1\<close> is the first matching row.
\<close>

definition get_reply_id :: "message \<Rightarrow> int \<Rightarrow> store \<Rightarrow> bool \<Rightarrow> int option" where
  "get_reply_id message topic st in_grp =
     (case reply_to_message message of
        None \<Rightarrow> None
      | Some r \<Rightarrow>
          if reply_from r = uid (from_user message) then
            map_option forwarded_id
              (find (\<lambda>row. received_id row = reply_message_id r \<and> topic_id row = topic
                              \<and> in_group row = in_grp) (messages st))
          else
            map_option received_id
              (find (\<lambda>row. forwarded_id row = reply_message_id r \<and> topic_id row = topic
                              \<and> in_group row = (\<not> in_grp)) (messages st)))"

section \<open>Verification and appeal state machine\<close>

text \<open>\<open>x or "manual"\<close>: the default replaces a missing or empty setting.\<close>

definition or_default :: "string option \<Rightarrow> string \<Rightarrow> string" where
  "or_default v d = (case v of None \<Rightarrow> d | Some x \<Rightarrow> if x = [] then d else x)"

text \<open>The \<open>INSERT\<close> and the two auto-mode statements of \<open>_submit_appeal\<close>.\<close>

definition insert_pending_appeal :: "env \<Rightarrow> user_id \<Rightarrow> state \<Rightarrow> state" where
  "insert_pending_appeal e u s =
     s\<lparr>db := (db s)\<lparr>appeal_requests := (appeal_requests (db s))
        (u \<mapsto> \<lparr>appeal_time = Some (now e), status = ''pending'', admin_id = None,
               handled_at = None\<rparr>)\<rparr>\<rparr>"

definition auto_approve :: "env \<Rightarrow> user_id \<Rightarrow> state \<Rightarrow> state" where
  "auto_approve e u s =
     s\<lparr>db := (db s)\<lparr>
          blocked_users := (blocked_users (db s))(u := None),
          appeal_requests :=
            (case appeal_requests (db s) u of
               Some row \<Rightarrow> (appeal_requests (db s))
                  (u \<mapsto> row\<lparr>status := ''approved'', handled_at := Some (now e)\<rparr>)
             | None \<Rightarrow> appeal_requests (db s))\<rparr>\<rparr>"

text \<open>
  \<open>MessageHandler._submit_appeal(user_id, user, db, cursor)\<close>. A row with one of the three
  statuses ends the call with the matching text. Any other existing row reaches the
  \<open>INSERT\<close>, which then violates \<open>UNIQUE(user_id)\<close>.
\<close>

definition submit_appeal :: "env \<Rightarrow> user_id \<Rightarrow> tg_user \<Rightarrow> state \<Rightarrow> unit outcome \<times> state" where
  "submit_appeal e u user s =
     (let existing_appeal = appeal_requests (db s) u
      in if map_option status existing_appeal = Some ''pending'' then
           (Returned (), emit (SendMessage u AppealAlreadyPending) s)
         else if map_option status existing_appeal = Some ''approved'' then
           (Returned (), emit (SendMessage u AppealAlreadyApproved) s)
         else if map_option status existing_appeal = Some ''rejected'' then
           (Returned (), emit (SendMessage u AppealAlreadyRejected) s)
         else if existing_appeal \<noteq> None then (Raised IntegrityError, s)
         else
           (let s1 = emit (SendMessage u AppealSubmitted) (insert_pending_appeal e u s);
                appeal_mode = or_default (setting_appeal_mode (cache s1)) ''manual''
            in if appeal_mode = ''auto'' then
                 (Returned (),
                  emit (SendMessage (group_id e) AutoAppealNotification)
                    (emit (SendMessage u AppealAutoApproved) (auto_approve e u s1)))
               else
                 (Returned (), emit (SendMessage (group_id e) NewAppealRequest) s1)))"

definition cache_delete_appeal_and_captcha :: "user_id \<Rightarrow> state \<Rightarrow> state" where
  "cache_delete_appeal_and_captcha u s =
     s\<lparr>cache := (cache s)\<lparr>appeal_verification := (appeal_verification (cache s))(u := None),
                           captcha := (captcha (cache s))(u := None)\<rparr>\<rparr>"

definition cache_delete_captcha :: "user_id \<Rightarrow> state \<Rightarrow> state" where
  "cache_delete_captcha u s = s\<lparr>cache := (cache s)\<lparr>captcha := (captcha (cache s))(u := None)\<rparr>\<rparr>"

text \<open>The branch of \<open>_check_captcha\<close> for a user with a \<open>blocked_users\<close> row (lines 234-273).\<close>

definition check_captcha_blocked :: "env \<Rightarrow> message \<Rightarrow> state \<Rightarrow> bool outcome \<times> state" where
  "check_captcha_blocked e m s =
     (let u = uid (from_user m)
      in if appeal_verification (cache s) u = Some True then
           (if verify_captcha u (msg_text m) s then
              (case submit_appeal e u (from_user m) (cache_delete_appeal_and_captcha u s) of
                 (Raised x, s1) \<Rightarrow> (Raised x, s1)
               | (Returned _, s1) \<Rightarrow> (Returned False, s1))
            else
              (Returned False,
               cache_delete_appeal_and_captcha u
                 (emit (SendMessage (chat_id m) IncorrectAppealAnswer) s)))
         else (Returned False, emit (SendMessage (chat_id m) BlockedAppealOffer) s))"

text \<open>The branch for a user who answers an outstanding challenge (lines 276-331).\<close>

definition check_captcha_answer :: "env \<Rightarrow> message \<Rightarrow> state \<Rightarrow> bool outcome \<times> state" where
  "check_captcha_answer e m s =
     (let u = uid (from_user m)
      in if \<not> verify_captcha u (msg_text m) s then
           (case record_attempt e u s of
              (attempts, s1) \<Rightarrow>
                if attempts \<ge> 3 then
                  (Returned False,
                   cache_delete_captcha u
                     (emit (SendMessage u AutoBlockedAppealOffer)
                        (block_user_by_attempts e u (username (from_user m))
                           (Some (first_name (from_user m))) (last_name (from_user m)) s1)))
                else
                  (case generate_captcha e u (setting_captcha (cache s1)) s1 of
                     (Raised x, s2) \<Rightarrow> (Raised x, s2)
                   | (Returned None, s2) \<Rightarrow> (Returned False, s2)
                   | (Returned (Some new_captcha), s2) \<Rightarrow>
                       (Returned False,
                        if new_captcha = [] then s2
                        else emit (SendMessage (chat_id m) (IncorrectAnswer attempts new_captcha)) s2)))
         else
           (Returned False,
            cache_delete_captcha u
              (reset_attempts u
                 (set_user_verified u (emit (SendMessage (chat_id m) VerificationSuccessful) s)))))"

text \<open>The branch for a user without outstanding challenge (lines 333-369).\<close>

definition check_captcha_unverified :: "env \<Rightarrow> message \<Rightarrow> state \<Rightarrow> bool outcome \<times> state" where
  "check_captcha_unverified e m s =
     (let u = uid (from_user m)
      in case is_user_verified u s of
           (True, s1) \<Rightarrow> (Returned True, s1)
         | (False, s1) \<Rightarrow>
             if captcha_rate_limit (cache s1) u = Some True then (Returned False, s1)
             else
               (let s2 = emit (SendMessage (chat_id m) MessageNotSent)
                           (s1\<lparr>cache := (cache s1)\<lparr>captcha_rate_limit :=
                                 (captcha_rate_limit (cache s1))(u \<mapsto> True)\<rparr>\<rparr>);
                    captcha_type = setting_captcha (cache s2)
                in if captcha_type = Some ''button'' \<or> captcha_type = Some ''image'' then
                     (case generate_captcha e u captcha_type s2 of
                        (Raised x, s3) \<Rightarrow> (Raised x, s3)
                      | (Returned _, s3) \<Rightarrow> (Returned False, s3))
                   else if captcha_type = Some ''math'' then
                     (case generate_captcha e u captcha_type s2 of
                        (Raised x, s3) \<Rightarrow> (Raised x, s3)
                      | (Returned None, s3) \<Rightarrow> (Raised TypeError, s3)
                      | (Returned (Some c), s3) \<Rightarrow>
                          (Returned False, emit (SendMessage (chat_id m) (MathProblem c)) s3))
                   else
                     (Returned False,
                      emit (SendMessage (group_id e) (InvalidCaptchaSetting captcha_type)) s2)))"

text \<open>
  \<open>MessageHandler._check_captcha(message, cursor, db)\<close>: \<open>Returned True\<close> lets the message
  through, \<open>Returned False\<close> stops it.
\<close>

definition check_captcha :: "env \<Rightarrow> message \<Rightarrow> state \<Rightarrow> bool outcome \<times> state" where
  "check_captcha e m s =
     (if setting_captcha (cache s) = Some ''disable'' then (Returned True, s)
      else if blocked_users (db s) (uid (from_user m)) \<noteq> None then check_captcha_blocked e m s
      else if captcha (cache s) (uid (from_user m)) \<noteq> None then check_captcha_answer e m s
      else check_captcha_unverified e m s)"

section \<open>Relay router: threads and forwarding\<close>

text \<open>\<open>MessageHandler._get_or_create_thread(message, cursor, db)\<close>: cache, else store, else
  a new forum topic; \<open>None\<close> when the topic cannot be created.\<close>

definition get_or_create_thread :: "env \<Rightarrow> message \<Rightarrow> state \<Rightarrow> int option \<times> state" where
  "get_or_create_thread e m s =
     (let userid = uid (from_user m)
      in case chat_threadid (cache s) userid of
           Some thread_id \<Rightarrow> (Some thread_id, s)
         | None \<Rightarrow>
             (case find (\<lambda>row. t_user_id row = userid) (topics (db s)) of
                Some row \<Rightarrow>
                  (Some (t_thread_id row),
                   s\<lparr>cache := (cache s)\<lparr>chat_threadid :=
                        (chat_threadid (cache s))(userid \<mapsto> t_thread_id row)\<rparr>\<rparr>)
              | None \<Rightarrow>
                  (case create_forum_topic e of
                     None \<Rightarrow> (None, s)
                   | Some thread_id \<Rightarrow>
                       (let s1 = s\<lparr>db := (db s)\<lparr>topics := topics (db s) @
                                    [\<lparr>t_user_id = userid, t_thread_id = thread_id\<rparr>]\<rparr>\<rparr>;
                            s2 = emit (SendMessage (group_id e) UserInfo) s1
                        in (Some thread_id,
                            s2\<lparr>cache := (cache s2)\<lparr>chat_threadid :=
                                 (chat_threadid (cache s2))(userid \<mapsto> thread_id)\<rparr>\<rparr>)))))"

text \<open>\<open>MessageHandler._send_message_by_type\<close>: the content types it relays; any other
  raises \<open>ValueError\<close>.\<close>

definition supported_content_types :: "string list" where
  "supported_content_types =
     [''photo'', ''text'', ''sticker'', ''video'', ''document'', ''audio'', ''voice'',
      ''animation'', ''contact'']"

definition send_message_by_type :: "env \<Rightarrow> message \<Rightarrow> send_result outcome" where
  "send_message_by_type e m =
     (if content_type m \<in> set supported_content_types then Returned (transport e)
      else Raised ValueError)"

text \<open>
  \<open>MessageHandler._forward_to_group(message, msg_text, msg_caption, thread_id, cursor)\<close>:
  the id of the relayed message, or \<open>None\<close> after a transport error.
\<close>

definition forward_to_group :: "env \<Rightarrow> message \<Rightarrow> int \<Rightarrow> state \<Rightarrow> int option outcome \<times> state" where
  "forward_to_group e m thread_id s =
     (let reply_id = get_reply_id m thread_id (db s) False
      in case send_message_by_type e m of
           Raised x \<Rightarrow> (Raised x, s)
         | Returned (Sent fwd) \<Rightarrow>
             (Returned (Some fwd),
              emit (Relay (group_id e) (Some thread_id) reply_id)
                (s\<lparr>db := (db s)\<lparr>messages := messages (db s) @
                     [\<lparr>received_id = message_id m, forwarded_id = fwd, topic_id = thread_id,
                       in_group = False\<rparr>]\<rparr>\<rparr>))
         | Returned (ApiTelegramException descr) \<Rightarrow>
             if str_contains ''message thread not found'' descr then
               (Returned None,
                s\<lparr>db := (db s)\<lparr>topics := filter (\<lambda>row. t_thread_id row \<noteq> thread_id) (topics (db s))\<rparr>,
                  cache := (cache s)\<lparr>
                    threadid_userid := (threadid_userid (cache s))(thread_id := None),
                    chat_threadid := (chat_threadid (cache s))(uid (from_user m) := None)\<rparr>\<rparr>)
             else
               (Returned None,
                emit (ForwardRaw (group_id e) (message_id m))
                  (emit (SendMessage (group_id e) ForwardFailed) s)))"

text \<open>How \<open>_handle_user_message\<close> ended.\<close>

datatype route = CaptchaDenied | BlockedRejected | SpamRouted | NoThread | NotForwarded | Forwarded int

text \<open>The update of the display fields of a blocked user's row (lines 80-84).\<close>

definition update_blocked_user_info :: "tg_user \<Rightarrow> state \<Rightarrow> state" where
  "update_blocked_user_info user s =
     (case blocked_users (db s) (uid user) of
        None \<Rightarrow> s
      | Some row \<Rightarrow>
          s\<lparr>db := (db s)\<lparr>blocked_users := (blocked_users (db s))
             (uid user \<mapsto> row\<lparr>b_username := username user, b_first_name := Some (first_name user),
                               b_last_name := last_name user\<rparr>)\<rparr>\<rparr>)"

definition blocked_auto_reply :: "message \<Rightarrow> state \<Rightarrow> state" where
  "blocked_auto_reply m s =
     (if setting_blocked_user_reply_enabled (cache s) = Some ''enable'' then
        (case setting_blocked_user_reply_message (cache s) of
           None \<Rightarrow> s
         | Some reply_message \<Rightarrow>
             if reply_message = [] then s
             else emit (SendMessage (chat_id m) (BlockedAutoReply reply_message)) s)
      else s)"

text \<open>
  \<open>MessageHandler._handle_user_message(message, msg_text, msg_caption, cursor, db)\<close>.
  The spam branch belongs to the external spam detector and is the parameter \<open>spam_path\<close>.
\<close>

definition handle_user_message :: "env \<Rightarrow> message \<Rightarrow> state \<Rightarrow> route outcome \<times> state" where
  "handle_user_message e m s =
     (case check_captcha e m s of
        (Raised x, s1) \<Rightarrow> (Raised x, s1)
      | (Returned False, s1) \<Rightarrow> (Returned CaptchaDenied, s1)
      | (Returned True, s1) \<Rightarrow>
          if blocked_users (db s1) (uid (from_user m)) \<noteq> None then
            (Returned BlockedRejected, blocked_auto_reply m (update_blocked_user_info (from_user m) s1))
          else if spam_detected e then (Returned SpamRouted, spam_path e s1)
          else
            (let s2 = (case auto_response e of
                         None \<Rightarrow> s1
                       | Some r \<Rightarrow> emit (SendMessage (chat_id m) (AutoResponse r)) s1)
             in case get_or_create_thread e m s2 of
                  (None, s3) \<Rightarrow> (Returned NoThread, s3)
                | (Some thread_id, s3) \<Rightarrow>
                    (case forward_to_group e m thread_id s3 of
                       (Raised x, s4) \<Rightarrow> (Raised x, s4)
                     | (Returned None, s4) \<Rightarrow> (Returned NotForwarded, s4)
                     | (Returned (Some fwd), s4) \<Rightarrow>
                         (Returned (Forwarded fwd),
                          case auto_response e of
                            None \<Rightarrow> s4
                          | Some r \<Rightarrow> emit (SendMessage (group_id e) (AutoResponse r)) s4))))"

section \<open>Callback handler\<close>

text \<open>
  \<open>CallbackHandler._handle_appeal_request(call, data)\<close>. The argument is
  \<open>data.get("user_id")\<close>, an integer in every payload the bot itself builds; \<open>None\<close> stands
  for a missing entry.
\<close>

definition handle_appeal_request :: "env \<Rightarrow> user_id option \<Rightarrow> state \<Rightarrow> unit outcome \<times> state" where
  "handle_appeal_request e user_id s =
     (case user_id of
        None \<Rightarrow> (Returned (), emit (AnswerCallback (Some InvalidUserId)) s)
      | Some u \<Rightarrow>
          if u = 0 then (Returned (), emit (AnswerCallback (Some InvalidUserId)) s)
          else
            (let existing_appeal = appeal_requests (db s) u
             in if map_option status existing_appeal = Some ''pending'' then
                  (Returned (), emit (AnswerCallback (Some AppealAlreadyPending)) s)
                else if map_option status existing_appeal = Some ''approved'' then
                  (Returned (), emit (AnswerCallback (Some AppealAlreadyApproved)) s)
                else if map_option status existing_appeal = Some ''rejected'' then
                  (Returned (), emit (AnswerCallback (Some AppealAlreadyRejected)) s)
                else if blocked_users (db s) u = None then
                  (Returned (), emit (AnswerCallback (Some NotBlocked)) s)
                else
                  (let s1 = s\<lparr>cache := (cache s)\<lparr>appeal_verification :=
                                  (appeal_verification (cache s))(u \<mapsto> True)\<rparr>\<rparr>;
                       captcha_type = or_default (setting_captcha (cache s1)) ''math'';
                       s2 = emit (AnswerCallback (Some CompleteVerificationToAppeal)) s1
                   in if captcha_type = ''button'' \<or> captcha_type = ''image'' then
                        (case generate_captcha e u (Some captcha_type) s2 of
                           (Raised x, s3) \<Rightarrow> (Raised x, s3)
                         | (Returned _, s3) \<Rightarrow>
                             (Returned (), emit (SendMessage u (AppealVerificationRequired None)) s3))
                      else
                        (case generate_captcha e u (Some ''math'') s2 of
                           (Raised x, s3) \<Rightarrow> (Raised x, s3)
                         | (Returned None, s3) \<Rightarrow> (Raised TypeError, s3)
                         | (Returned (Some c), s3) \<Rightarrow>
                             (Returned (),
                              emit (SendMessage u (AppealVerificationRequired (Some c))) s3)))))"

text \<open>
  \<open>CallbackHandler._handle_approve_appeal(call, user_id)\<close>, with \<open>admin\<close> for
  \<open>call.from_user.id\<close>: an \<open>UPDATE\<close> of the user's appeal row (no row, no change), the two
  \<open>DELETE\<close>s, the commit, and the two notifications.
\<close>

definition handle_approve_appeal :: "env \<Rightarrow> user_id \<Rightarrow> user_id \<Rightarrow> state \<Rightarrow> state" where
  "handle_approve_appeal e admin u s =
     emit (EditMessage AppealApprovedAdmin)
       (emit (SendMessage u AppealApprovedUser)
          (s\<lparr>db := (db s)\<lparr>
               appeal_requests :=
                 (case appeal_requests (db s) u of
                    Some row \<Rightarrow> (appeal_requests (db s))
                      (u \<mapsto> row\<lparr>status := ''approved'', admin_id := Some admin,
                                 handled_at := Some (now e)\<rparr>)
                  | None \<Rightarrow> appeal_requests (db s)),
               blocked_users := (blocked_users (db s))(u := None),
               verification_attempts := (verification_attempts (db s))(u := None)\<rparr>\<rparr>))"

text \<open>\<open>CallbackHandler._handle_reject_appeal(call, user_id)\<close>.\<close>

definition handle_reject_appeal :: "env \<Rightarrow> user_id \<Rightarrow> user_id \<Rightarrow> state \<Rightarrow> state" where
  "handle_reject_appeal e admin u s =
     emit (EditMessage AppealRejectedAdmin)
       (emit (SendMessage u AppealRejectedUser)
          (s\<lparr>db := (db s)\<lparr>
               appeal_requests :=
                 (case appeal_requests (db s) u of
                    Some row \<Rightarrow> (appeal_requests (db s))
                      (u \<mapsto> row\<lparr>status := ''rejected'', admin_id := Some admin,
                                 handled_at := Some (now e)\<rparr>)
                  | None \<Rightarrow> appeal_requests (db s))\<rparr>\<rparr>))"

text \<open>
  The \<open>approve_appeal\<close> and \<open>reject_appeal\<close> cases of
  \<open>CallbackHandler._handle_admin_callback\<close> (lines 278-289). The argument \<open>user_id\<close> is
  \<open>data["user_id"]\<close>, and \<open>None\<close> when the payload has no such entry.
\<close>

datatype decision = Approve | Reject

definition resolve_appeal_callback ::
    "env \<Rightarrow> decision \<Rightarrow> user_id \<Rightarrow> user_id option \<Rightarrow> state \<Rightarrow> state" where
  "resolve_appeal_callback e decision admin user_id s =
     (case user_id of
        None \<Rightarrow> emit (SendMessage (group_id e) InvalidAction) (emit DeleteMessage s)
      | Some u \<Rightarrow>
          (case decision of
             Approve \<Rightarrow> handle_approve_appeal e admin u s
           | Reject \<Rightarrow> handle_reject_appeal e admin u s))"

section \<open>Callback dispatch\<close>

text \<open>
  A decoded JSON value. The keys of an object are distinct, as in the Python \<open>dict\<close> that
  \<open>json.loads\<close> builds; numbers are integers in every payload the bot builds.
\<close>

datatype json =
    JNull
  | JBool bool
  | JNumber int
  | JString string
  | JArray "json list"
  | JObject "(string \<times> json) list"

text \<open>\<open>data[key]\<close> for a string key: a \<open>dict\<close> answers or raises \<open>KeyError\<close>; a list, a
  string, a number, a boolean and \<open>None\<close> raise \<open>TypeError\<close>.\<close>

fun subscript :: "json \<Rightarrow> string \<Rightarrow> json outcome" where
  "subscript (JObject items) k =
     (case map_of items k of None \<Rightarrow> Raised KeyError | Some v \<Rightarrow> Returned v)"
| "subscript _ k = Raised TypeError"

text \<open>\<open>telebot.types.CallbackQuery\<close>: the fields the dispatch reads.\<close>

record callback_query =
  call_data :: string
  call_chat_id :: int
  call_from :: user_id

text \<open>Where \<open>handle_callback_query\<close> passes the call on to, or that it dropped it.\<close>

datatype callback_route =
    Dropped
  | VerifyButton json
  | AppealRequest json
  | OutsideGroup
  | AdminCallback json json

text \<open>
  \<open>CallbackHandler.handle_callback_query(call)\<close>. The parser \<open>json.loads\<close> belongs to the
  standard library and is the parameter \<open>loads\<close>, with \<open>None\<close> for \<open>JSONDecodeError\<close>,
  the only exception the handler catches.
\<close>

definition handle_callback_query ::
    "(string \<Rightarrow> json option) \<Rightarrow> env \<Rightarrow> callback_query \<Rightarrow> state \<Rightarrow> callback_route outcome \<times> state" where
  "handle_callback_query loads e call s =
     (if call_data call = ''null'' then (Returned Dropped, s)
      else
        (case loads (call_data call) of
           None \<Rightarrow> (Returned Dropped, s)
         | Some data \<Rightarrow>
             (case subscript data ''action'' of
                Raised x \<Rightarrow> (Raised x, s)
              | Returned action \<Rightarrow>
                  (let s1 = emit (AnswerCallback None) s
                   in if action = JString ''verify_button'' then (Returned (VerifyButton data), s1)
                      else if action = JString ''appeal_request'' then
                        (Returned (AppealRequest data), s1)
                      else if call_chat_id call \<noteq> group_id e then (Returned OutsideGroup, s1)
                      else (Returned (AdminCallback action data), s1)))))"

section \<open>Schema migration\<close>

text \<open>
  The store as the migration sees it: tables by name, each with its column names, the
  columns that carry a single-column \<open>PRIMARY KEY\<close> or \<open>UNIQUE\<close> constraint, and its rows.
  SQLite compares table and column names without regard to case; the model holds them in
  lower case. A row lists the values of the columns an \<open>INSERT\<close> names; a column it does
  not name takes its default, which for an integer primary key is a fresh row id.
\<close>

datatype sql_value = SqlNull | SqlInt int | SqlText string

type_synonym sql_row = "(string \<times> sql_value) list"

record table =
  columns :: "string list"
  unique_columns :: "string list"
  rows :: "sql_row list"

type_synonym database = "string \<rightharpoonup> table"

datatype sql_error = OperationalError

text \<open>\<open>CREATE TABLE IF NOT EXISTS name (...)\<close>.\<close>

definition create_table_if_not_exists ::
    "string \<Rightarrow> table \<Rightarrow> database \<Rightarrow> sql_error + database" where
  "create_table_if_not_exists name t d =
     (case d name of Some _ \<Rightarrow> Inr d | None \<Rightarrow> Inr (d(name \<mapsto> t)))"

text \<open>\<open>PRAGMA table_info(name)\<close>: the column names, none for a table that does not exist.\<close>

definition table_info :: "string \<Rightarrow> database \<Rightarrow> string list" where
  "table_info name d = (case d name of None \<Rightarrow> [] | Some t \<Rightarrow> columns t)"

text \<open>\<open>ALTER TABLE name ADD COLUMN col ... DEFAULT dflt\<close>: fails on a missing table and on
  a column that is already there; existing rows read the default.\<close>

definition add_column :: "string \<Rightarrow> sql_value \<Rightarrow> table \<Rightarrow> table" where
  "add_column col dflt t =
     t\<lparr>columns := columns t @ [col], rows := map (\<lambda>r. r @ [(col, dflt)]) (rows t)\<rparr>"

definition alter_table_add_column ::
    "string \<Rightarrow> string \<Rightarrow> sql_value \<Rightarrow> database \<Rightarrow> sql_error + database" where
  "alter_table_add_column name col dflt d =
     (case d name of
        None \<Rightarrow> Inl OperationalError
      | Some t \<Rightarrow>
          if col \<in> set (columns t) then Inl OperationalError
          else Inr (d(name \<mapsto> add_column col dflt t)))"

text \<open>A new row conflicts with a table when a unique column it names already holds the
  same value in some row.\<close>

definition conflicts :: "table \<Rightarrow> sql_row \<Rightarrow> bool" where
  "conflicts t new_row =
     (\<exists>c\<in>set (unique_columns t). \<exists>r\<in>set (rows t).
        map_of new_row c \<noteq> None \<and> map_of r c = map_of new_row c)"

text \<open>\<open>INSERT OR IGNORE INTO name (...) VALUES (...)\<close>: fails on a missing table or column,
  skips the row on a conflict, and appends it otherwise.\<close>

definition insert_row :: "sql_row \<Rightarrow> table \<Rightarrow> table" where
  "insert_row new_row t = (if conflicts t new_row then t else t\<lparr>rows := rows t @ [new_row]\<rparr>)"

definition insert_or_ignore :: "string \<Rightarrow> sql_row \<Rightarrow> database \<Rightarrow> sql_error + database" where
  "insert_or_ignore name new_row d =
     (case d name of
        None \<Rightarrow> Inl OperationalError
      | Some t \<Rightarrow>
          if \<not> set (map fst new_row) \<subseteq> set (columns t) then Inl OperationalError
          else Inr (d(name \<mapsto> insert_row new_row t)))"

text \<open>\<open>try: ...; conn.commit() except Exception: ...; conn.rollback()\<close> around one step.\<close>

definition guarded :: "(database \<Rightarrow> sql_error + database) \<Rightarrow> database \<Rightarrow> database" where
  "guarded step d = (case step d of Inl _ \<Rightarrow> d | Inr d' \<Rightarrow> d')"

definition verification_attempts_table :: table where
  "verification_attempts_table =
     \<lparr>columns = [''id'', ''user_id'', ''attempt_count'', ''last_attempt_time'',
                  ''blocked_by_attempts'', ''created_at''],
      unique_columns = [''id'', ''user_id''], rows = []\<rparr>"

definition appeal_requests_table :: table where
  "appeal_requests_table =
     \<lparr>columns = [''id'', ''user_id'', ''appeal_time'', ''appeal_message'', ''status'',
                  ''admin_id'', ''handled_at''],
      unique_columns = [''id'', ''user_id''], rows = []\<rparr>"

text \<open>The third step of \<open>upgrade\<close>: the column is added unless \<open>table_info\<close> lists it.\<close>

definition add_block_reason :: "database \<Rightarrow> sql_error + database" where
  "add_block_reason d =
     (if ''block_reason'' \<in> set (table_info ''blocked_users'' d) then Inr d
      else alter_table_add_column ''blocked_users'' ''block_reason'' (SqlText ''manual'') d)"

definition setting_row :: "string \<Rightarrow> string \<Rightarrow> sql_row" where
  "setting_row k v = [(''key'', SqlText k), (''value'', SqlText v)]"

text \<open>\<open>upgrade(db_path)\<close> of \<open>db_migrate/20251225_verification_enhancement.py\<close>: five
  guarded steps, in the order of the source.\<close>

definition upgrade :: "database \<Rightarrow> database" where
  "upgrade d =
     guarded (insert_or_ignore ''settings'' (setting_row ''captcha_image_enabled'' ''disable''))
       (guarded (insert_or_ignore ''settings'' (setting_row ''appeal_mode'' ''manual''))
          (guarded add_block_reason
             (guarded (create_table_if_not_exists ''appeal_requests'' appeal_requests_table)
                (guarded (create_table_if_not_exists ''verification_attempts''
                            verification_attempts_table) d))))"

text \<open>What one run of the migration leaves of a \<open>blocked_users\<close> table and of a
  \<open>settings\<close> table.\<close>

definition settled :: "table \<Rightarrow> table" where
  "settled t = (if ''block_reason'' \<in> set (columns t) then t
                else add_column ''block_reason'' (SqlText ''manual'') t)"

definition defaults_added :: "table \<Rightarrow> table" where
  "defaults_added t =
     (if ''key'' \<in> set (columns t) \<and> ''value'' \<in> set (columns t) then
        insert_row (setting_row ''captcha_image_enabled'' ''disable'')
          (insert_row (setting_row ''appeal_mode'' ''manual'') t)
      else t)"

section \<open>Concrete inputs\<close>

definition empty_store :: store where
  "empty_store = \<lparr>topics = [], messages = [], blocked_users = Map.empty,
     verification_attempts = Map.empty, appeal_requests = Map.empty, verified_users = {}\<rparr>"

definition user_ex :: tg_user where
  "user_ex = \<lparr>uid = 7, username = Some ''alice'', first_name = ''Alice'', last_name = None\<rparr>"

definition reply_msg_ex :: message where
  "reply_msg_ex = \<lparr>from_user = user_ex, chat_id = 7, message_id = 40,
     message_thread_id = None, msg_text = Some ''thanks'', content_type = ''text'',
     reply_to_message = Some \<lparr>reply_from = 900, reply_message_id = 31\<rparr>\<rparr>"

definition reply_db_ex :: store where
  "reply_db_ex = empty_store\<lparr>messages :=
     [\<lparr>received_id = 10, forwarded_id = 11, topic_id = 5, in_group = False\<rparr>,
      \<lparr>received_id = 30, forwarded_id = 31, topic_id = 5, in_group = True\<rparr>]\<rparr>"

definition empty_cache :: kv_cache where
  "empty_cache = \<lparr>captcha = Map.empty, verified = Map.empty, appeal_verification = Map.empty,
     captcha_rate_limit = Map.empty, chat_threadid = Map.empty, threadid_userid = Map.empty,
     setting_captcha = Some ''math'', setting_appeal_mode = Some ''manual'',
     setting_blocked_user_reply_enabled = None, setting_blocked_user_reply_message = None\<rparr>"

definition env_ex :: env where
  "env_ex = \<lparr>now = 1000, group_id = - 100, num1 = 12, num2 = 30, captcha_text = ''4821'',
     transport = Sent 501, create_forum_topic = Some 9, spam_detected = False,
     spam_path = (\<lambda>s. s), auto_response = None\<rparr>"

definition blocked_row_ex :: blocked_row where
  "blocked_row_ex = \<lparr>b_username = Some ''alice'', b_first_name = Some ''Alice'',
     b_last_name = None, block_reason = Some ''auto_attempts'', blocked_at = Some 900\<rparr>"

definition attempts_ex :: attempt_row where
  "attempts_ex = \<lparr>attempt_count = 3, last_attempt_time = Some 890, blocked_by_attempts = True\<rparr>"

text \<open>User 7 is blocked after three failed attempts and has never appealed.\<close>

definition blocked_state_ex :: state where
  "blocked_state_ex =
     \<lparr>db = empty_store\<lparr>blocked_users := [7 \<mapsto> blocked_row_ex],
                       verification_attempts := [7 \<mapsto> attempts_ex]\<rparr>,
      cache = empty_cache, outbox = []\<rparr>"


text \<open>The same user under automatic appeal mode.\<close>

definition auto_state_ex :: state where
  "auto_state_ex = blocked_state_ex\<lparr>cache := empty_cache\<lparr>setting_appeal_mode := Some ''auto''\<rparr>\<rparr>"

text \<open>The same user after an administrator rejected the appeal.\<close>

definition rejected_appeal_ex :: appeal_row where
  "rejected_appeal_ex = \<lparr>appeal_time = Some 950, status = ''rejected'', admin_id = Some 900,
     handled_at = Some 960\<rparr>"

definition rejected_state_ex :: state where
  "rejected_state_ex =
     blocked_state_ex\<lparr>db := (db blocked_state_ex)\<lparr>appeal_requests := [7 \<mapsto> rejected_appeal_ex]\<rparr>\<rparr>"


definition answer_msg_ex :: "string \<Rightarrow> message" where
  "answer_msg_ex txt = \<lparr>from_user = user_ex, chat_id = 7, message_id = 41,
     message_thread_id = None, msg_text = Some txt, content_type = ''text'',
     reply_to_message = None\<rparr>"

definition pending_state_ex :: state where
  "pending_state_ex =
     \<lparr>db = empty_store\<lparr>verification_attempts :=
             [7 \<mapsto> \<lparr>attempt_count = 2, last_attempt_time = Some 880,
                      blocked_by_attempts = False\<rparr>]\<rparr>,
      cache = empty_cache\<lparr>captcha := [7 \<mapsto> MathAnswer 42]\<rparr>, outbox = []\<rparr>"

definition fresh_state_ex :: state where
  "fresh_state_ex = \<lparr>db = empty_store, cache = empty_cache, outbox = []\<rparr>"

text \<open>User 7 is verified and owns thread 5; the transport reports the thread missing.\<close>

definition routed_state_ex :: state where
  "routed_state_ex =
     \<lparr>db = empty_store\<lparr>topics := [\<lparr>t_user_id = 7, t_thread_id = 5\<rparr>,
                                   \<lparr>t_user_id = 8, t_thread_id = 6\<rparr>],
                       verified_users := {7}\<rparr>,
      cache = empty_cache\<lparr>chat_threadid := [7 \<mapsto> 5], threadid_userid := [5 \<mapsto> 7]\<rparr>,
      outbox = []\<rparr>"

definition thread_lost_env_ex :: env where
  "thread_lost_env_ex =
     env_ex\<lparr>transport := ApiTelegramException ''Bad Request: message thread not found''\<rparr>"

text \<open>A stand-in for \<open>json.loads\<close> on the two payloads used below: the empty object and
  the empty list decode, anything else does not.\<close>

definition loads_ex :: "string \<Rightarrow> json option" where
  "loads_ex d = (if d = ''{}'' then Some (JObject []) else if d = ''[]'' then Some (JArray [])
                 else None)"

definition empty_object_call_ex :: callback_query where
  "empty_object_call_ex = \<lparr>call_data = ''{}'', call_chat_id = 7, call_from = 7\<rparr>"

text \<open>The prerequisite tables as the repository's tests create them before the migration:
  \<open>settings(id INTEGER PRIMARY KEY, key, value)\<close> and \<open>blocked_users\<close> without
  \<open>block_reason\<close>.\<close>

definition test_db_ex :: database where
  "test_db_ex =
     [''settings'' \<mapsto> \<lparr>columns = [''id'', ''key'', ''value''], unique_columns = [''id''],
                         rows = []\<rparr>,
      ''blocked_users'' \<mapsto> \<lparr>columns = [''user_id'', ''username'', ''first_name'',
                                         ''last_name'', ''blocked_at''],
                              unique_columns = [''user_id''], rows = []\<rparr>]"

text \<open>The same store with \<open>settings.key\<close> as primary key.\<close>

definition keyed_db_ex :: database where
  "keyed_db_ex =
     [''settings'' \<mapsto> \<lparr>columns = [''key'', ''value''], unique_columns = [''key''],
                         rows = [setting_row ''captcha'' ''math'']\<rparr>,
      ''blocked_users'' \<mapsto> \<lparr>columns = [''user_id'', ''username'', ''first_name'',
                                         ''last_name'', ''blocked_at''],
                              unique_columns = [''user_id''],
                              rows = [[(''user_id'', SqlInt 7)]]\<rparr>]"

section \<open>Verified properties\<close>

lemmas ex_defs = empty_cache_def env_ex_def blocked_row_ex_def attempts_ex_def
  blocked_state_ex_def empty_store_def user_ex_def

lemma find_Some_in_set: "find P xs = Some x \<Longrightarrow> x \<in> set xs \<and> P x"
  by (induction xs) (auto split: if_splits)

lemma find_None_no_match: "find P xs = None \<longleftrightarrow> (\<forall>x\<in>set xs. \<not> P x)"
  by (induction xs) auto

text \<open>
  Claim C8 (reply correlation asymmetry). For a message that replies to a referenced
  message in a thread, under a direction flag: when the replying party is the author of
  the referenced message, the reply target is the \<open>forwarded_id\<close> of a correlation row of
  that thread whose \<open>received_id\<close> is the referenced id and whose direction flag is the
  given one; otherwise it is the \<open>received_id\<close> of a row whose \<open>forwarded_id\<close> is the
  referenced id and whose direction flag is the inverted one. In both cases no target is
  attached exactly when no such row exists, and a message that is not a reply has no
  target.
\<close>

theorem get_reply_id_correlation:
  "(reply_to_message m = None \<longrightarrow> get_reply_id m t st g = None) \<and>
   (\<forall>r. reply_to_message m = Some r \<and> reply_from r = uid (from_user m) \<longrightarrow>
      (get_reply_id m t st g = None \<longleftrightarrow>
         \<not> (\<exists>row\<in>set (messages st). received_id row = reply_message_id r \<and>
               topic_id row = t \<and> in_group row = g)) \<and>
      (\<forall>x. get_reply_id m t st g = Some x \<longrightarrow>
         (\<exists>row\<in>set (messages st). received_id row = reply_message_id r \<and>
               topic_id row = t \<and> in_group row = g \<and> forwarded_id row = x))) \<and>
   (\<forall>r. reply_to_message m = Some r \<and> reply_from r \<noteq> uid (from_user m) \<longrightarrow>
      (get_reply_id m t st g = None \<longleftrightarrow>
         \<not> (\<exists>row\<in>set (messages st). forwarded_id row = reply_message_id r \<and>
               topic_id row = t \<and> in_group row = (\<not> g))) \<and>
      (\<forall>x. get_reply_id m t st g = Some x \<longrightarrow>
         (\<exists>row\<in>set (messages st). forwarded_id row = reply_message_id r \<and>
               topic_id row = t \<and> in_group row = (\<not> g) \<and> received_id row = x)))"
proof (intro conjI allI impI)
  assume "reply_to_message m = None"
  then show "get_reply_id m t st g = None"
    by (simp add: get_reply_id_def)
next
  fix r
  assume a: "reply_to_message m = Some r \<and> reply_from r = uid (from_user m)"
  then show "get_reply_id m t st g = None \<longleftrightarrow>
      \<not> (\<exists>row\<in>set (messages st). received_id row = reply_message_id r \<and>
            topic_id row = t \<and> in_group row = g)"
    by (simp add: get_reply_id_def find_None_no_match)
next
  fix r x
  assume a: "reply_to_message m = Some r \<and> reply_from r = uid (from_user m)"
    and b: "get_reply_id m t st g = Some x"
  from a b obtain row where
    "find (\<lambda>row. received_id row = reply_message_id r \<and> topic_id row = t
                   \<and> in_group row = g) (messages st) = Some row" "forwarded_id row = x"
    by (auto simp: get_reply_id_def)
  then show "\<exists>row\<in>set (messages st). received_id row = reply_message_id r \<and>
      topic_id row = t \<and> in_group row = g \<and> forwarded_id row = x"
    using find_Some_in_set by fastforce
next
  fix r
  assume a: "reply_to_message m = Some r \<and> reply_from r \<noteq> uid (from_user m)"
  then show "get_reply_id m t st g = None \<longleftrightarrow>
      \<not> (\<exists>row\<in>set (messages st). forwarded_id row = reply_message_id r \<and>
            topic_id row = t \<and> in_group row = (\<not> g))"
    by (simp add: get_reply_id_def find_None_no_match)
next
  fix r x
  assume a: "reply_to_message m = Some r \<and> reply_from r \<noteq> uid (from_user m)"
    and b: "get_reply_id m t st g = Some x"
  from a b obtain row where
    "find (\<lambda>row. forwarded_id row = reply_message_id r \<and> topic_id row = t
                   \<and> in_group row = (\<not> g)) (messages st) = Some row" "received_id row = x"
    by (auto simp: get_reply_id_def)
  then show "\<exists>row\<in>set (messages st). forwarded_id row = reply_message_id r \<and>
      topic_id row = t \<and> in_group row = (\<not> g) \<and> received_id row = x"
    using find_Some_in_set by fastforce
qed

text \<open>Instance: user 7 replies in thread 5 to the staff message that reached them as message
  31; the row written when that message was relayed gives the staff-side id 30.\<close>

theorem get_reply_id_correlation_witness:
  "reply_to_message reply_msg_ex = Some \<lparr>reply_from = 900, reply_message_id = 31\<rparr> \<and>
   reply_from \<lparr>reply_from = 900, reply_message_id = 31\<rparr> \<noteq> uid (from_user reply_msg_ex) \<and>
   get_reply_id reply_msg_ex 5 reply_db_ex False = Some 30 \<and>
   (\<exists>row\<in>set (messages reply_db_ex). forwarded_id row = 31 \<and> topic_id row = 5 \<and>
       in_group row = True \<and> received_id row = 30)"
  using get_reply_id_correlation [of reply_msg_ex 5 reply_db_ex False]
  by (simp add: get_reply_id_def reply_msg_ex_def reply_db_ex_def empty_store_def user_ex_def)

text \<open>
  Claim C1, as stated, at a concrete input. User 7 is blocked and has no appeal row. An
  approval for user 7 is not answered with the invalid-action text and does not abort:
  it deletes the user's \<open>blocked_users\<close> and \<open>verification_attempts\<close> rows and sends the
  approval notifications.
\<close>

theorem approve_without_appeal_counterexample:
  "appeal_requests (db blocked_state_ex) 7 = None \<and>
   blocked_users (db blocked_state_ex) 7 = Some blocked_row_ex \<and>
   blocked_users (db (resolve_appeal_callback env_ex Approve 900 (Some 7) blocked_state_ex)) 7 = None \<and>
   verification_attempts (db (resolve_appeal_callback env_ex Approve 900 (Some 7) blocked_state_ex)) 7 = None \<and>
   outbox (resolve_appeal_callback env_ex Approve 900 (Some 7) blocked_state_ex) =
     [SendMessage 7 AppealApprovedUser, EditMessage AppealApprovedAdmin]"
  by (simp add: resolve_appeal_callback_def handle_approve_appeal_def emit_def ex_defs)

text \<open>
  Claim C1, amended. Resolving an appeal is not guarded by the appeal's status. Approval
  always deletes the user's \<open>blocked_users\<close> and \<open>verification_attempts\<close> rows and sets
  the user's appeal row, when there is one and whatever its status, to \<open>approved\<close> with
  the resolving admin and time. Rejection sets the row, when there is one and whatever
  its status, to \<open>rejected\<close> and leaves \<open>blocked_users\<close> and \<open>verification_attempts\<close> as
  they are. Neither creates an appeal row, touches the rows of another user, or answers
  with anything but its two notifications.
\<close>

theorem resolve_appeal_unguarded:
  "(let s' = handle_approve_appeal e admin u s in
      blocked_users (db s') u = None \<and>
      verification_attempts (db s') u = None \<and>
      appeal_requests (db s') u =
        map_option (\<lambda>row. row\<lparr>status := ''approved'', admin_id := Some admin,
                               handled_at := Some (now e)\<rparr>) (appeal_requests (db s) u) \<and>
      (\<forall>v. v \<noteq> u \<longrightarrow> blocked_users (db s') v = blocked_users (db s) v \<and>
            verification_attempts (db s') v = verification_attempts (db s) v \<and>
            appeal_requests (db s') v = appeal_requests (db s) v) \<and>
      outbox s' = outbox s @ [SendMessage u AppealApprovedUser, EditMessage AppealApprovedAdmin]) \<and>
   (let s' = handle_reject_appeal e admin u s in
      blocked_users (db s') = blocked_users (db s) \<and>
      verification_attempts (db s') = verification_attempts (db s) \<and>
      appeal_requests (db s') u =
        map_option (\<lambda>row. row\<lparr>status := ''rejected'', admin_id := Some admin,
                               handled_at := Some (now e)\<rparr>) (appeal_requests (db s) u) \<and>
      (\<forall>v. v \<noteq> u \<longrightarrow> appeal_requests (db s') v = appeal_requests (db s) v) \<and>
      outbox s' = outbox s @ [SendMessage u AppealRejectedUser, EditMessage AppealRejectedAdmin])"
  by (simp add: handle_approve_appeal_def handle_reject_appeal_def emit_def Let_def
      split: option.splits)

theorem resolve_appeal_unguarded_witness:
  "(8::int) \<noteq> 7 \<and>
   blocked_users (db (handle_approve_appeal env_ex 900 7 blocked_state_ex)) 7 = None \<and>
   blocked_users (db (handle_approve_appeal env_ex 900 7 blocked_state_ex)) 8 =
     blocked_users (db blocked_state_ex) 8 \<and>
   appeal_requests (db (handle_reject_appeal env_ex 900 7 blocked_state_ex)) 8 =
     appeal_requests (db blocked_state_ex) 8"
  using resolve_appeal_unguarded [of env_ex 900 7 blocked_state_ex]
  by (simp add: Let_def)

text \<open>
  Claim C2, as stated, at a concrete input. User 7 is blocked with three recorded attempts
  and submits the appeal under automatic mode. The appeal becomes \<open>approved\<close> and the
  \<open>blocked_users\<close> row is deleted, but the \<open>verification_attempts\<close> row is still there
  with its count of 3.
\<close>

theorem auto_appeal_keeps_attempts_counterexample:
  "setting_appeal_mode (cache auto_state_ex) = Some ''auto'' \<and>
   blocked_users (db auto_state_ex) 7 = Some blocked_row_ex \<and>
   fst (submit_appeal env_ex 7 user_ex auto_state_ex) = Returned () \<and>
   map_option status (appeal_requests (db (snd (submit_appeal env_ex 7 user_ex auto_state_ex))) 7)
     = Some ''approved'' \<and>
   blocked_users (db (snd (submit_appeal env_ex 7 user_ex auto_state_ex))) 7 = None \<and>
   verification_attempts (db (snd (submit_appeal env_ex 7 user_ex auto_state_ex))) 7
     = Some attempts_ex \<and>
   attempt_count attempts_ex = 3"
  by (simp add: submit_appeal_def insert_pending_appeal_def auto_approve_def or_default_def
      emit_def Let_def auto_state_ex_def ex_defs)

text \<open>
  Claim C2, amended. Under automatic appeal mode, submitting the appeal of a user without
  appeal row deletes the user's \<open>blocked_users\<close> row and leaves an appeal row with status
  \<open>approved\<close>, handled at submission time by no administrator. The
  \<open>verification_attempts\<close> table, and so the user's attempt count, is unchanged, as is
  \<open>verified_users\<close>.
\<close>

theorem auto_appeal_approves_and_unblocks:
  assumes "setting_appeal_mode (cache s) = Some ''auto''"
    and "appeal_requests (db s) u = None"
  shows "\<exists>s'. submit_appeal e u user s = (Returned (), s') \<and>
           blocked_users (db s') u = None \<and>
           appeal_requests (db s') u =
             Some \<lparr>appeal_time = Some (now e), status = ''approved'', admin_id = None,
                    handled_at = Some (now e)\<rparr> \<and>
           verification_attempts (db s') = verification_attempts (db s) \<and>
           verified_users (db s') = verified_users (db s)"
  using assms
  by (simp add: submit_appeal_def insert_pending_appeal_def auto_approve_def or_default_def
      emit_def Let_def)

theorem auto_appeal_approves_and_unblocks_witness:
  "setting_appeal_mode (cache auto_state_ex) = Some ''auto'' \<and>
   appeal_requests (db auto_state_ex) 7 = None \<and>
   (\<exists>s'. submit_appeal env_ex 7 user_ex auto_state_ex = (Returned (), s') \<and>
         blocked_users (db s') 7 = None \<and>
         verification_attempts (db s') = verification_attempts (db auto_state_ex))"
proof -
  have a: "setting_appeal_mode (cache auto_state_ex) = Some ''auto''"
    by (simp add: auto_state_ex_def ex_defs)
  have b: "appeal_requests (db auto_state_ex) 7 = None"
    by (simp add: auto_state_ex_def ex_defs)
  from auto_appeal_approves_and_unblocks [OF a b, of env_ex user_ex] a b
  show ?thesis by blast
qed

text \<open>
  Claim C6 (one-shot appeal). The table holds at most one appeal row per user, since it is
  keyed by the user id. For a user who has an appeal row, asking for an appeal through the
  button and submitting an appeal are both answered by the text for the row's status
  (already pending, already approved, already rejected) and change nothing else; and
  whatever the row's status, neither operation adds or changes an appeal row.
\<close>

theorem one_shot_appeal:
  assumes "appeal_requests (db s) u = Some row" and "u \<noteq> 0"
  shows "(status row = ''pending'' \<longrightarrow>
            handle_appeal_request e (Some u) s =
              (Returned (), emit (AnswerCallback (Some AppealAlreadyPending)) s) \<and>
            submit_appeal e u user s = (Returned (), emit (SendMessage u AppealAlreadyPending) s)) \<and>
         (status row = ''approved'' \<longrightarrow>
            handle_appeal_request e (Some u) s =
              (Returned (), emit (AnswerCallback (Some AppealAlreadyApproved)) s) \<and>
            submit_appeal e u user s = (Returned (), emit (SendMessage u AppealAlreadyApproved) s)) \<and>
         (status row = ''rejected'' \<longrightarrow>
            handle_appeal_request e (Some u) s =
              (Returned (), emit (AnswerCallback (Some AppealAlreadyRejected)) s) \<and>
            submit_appeal e u user s = (Returned (), emit (SendMessage u AppealAlreadyRejected) s)) \<and>
         appeal_requests (db (snd (handle_appeal_request e (Some u) s))) = appeal_requests (db s) \<and>
         appeal_requests (db (snd (submit_appeal e u user s))) = appeal_requests (db s)"
proof -
  have 1: "appeal_requests (db (snd (submit_appeal e u user s))) = appeal_requests (db s)"
    using assms by (simp add: submit_appeal_def emit_def Let_def)
  have 2: "appeal_requests (db (snd (handle_appeal_request e (Some u) s))) = appeal_requests (db s)"
    using assms
    by (auto simp: handle_appeal_request_def generate_captcha_def emit_def Let_def)
  from assms 1 2 show ?thesis
    by (simp add: handle_appeal_request_def submit_appeal_def Let_def)
qed

theorem one_shot_appeal_witness:
  "appeal_requests (db rejected_state_ex) 7 = Some rejected_appeal_ex \<and> (7::int) \<noteq> 0 \<and>
   status rejected_appeal_ex = ''rejected'' \<and>
   handle_appeal_request env_ex (Some 7) rejected_state_ex =
     (Returned (), emit (AnswerCallback (Some AppealAlreadyRejected)) rejected_state_ex) \<and>
   submit_appeal env_ex 7 user_ex rejected_state_ex =
     (Returned (), emit (SendMessage 7 AppealAlreadyRejected) rejected_state_ex)"
proof -
  have a: "appeal_requests (db rejected_state_ex) 7 = Some rejected_appeal_ex"
    by (simp add: rejected_state_ex_def)
  have b: "status rejected_appeal_ex = ''rejected''"
    by (simp add: rejected_appeal_ex_def)
  from one_shot_appeal [OF a, of env_ex user_ex] a b show ?thesis by simp
qed

subsection \<open>Decimal strings\<close>

lemma digit_char_inj: "a < 10 \<Longrightarrow> b < 10 \<Longrightarrow> digit_char a = digit_char b \<Longrightarrow> a = b"
  unfolding digit_char_def
  by (auto simp: nth_Cons' less_Suc_eq numeral_eq_Suc split: if_splits)

lemma digit_char_not_minus: "a < 10 \<Longrightarrow> digit_char a \<noteq> CHR ''-''"
  unfolding digit_char_def
  by (auto simp: nth_Cons' less_Suc_eq numeral_eq_Suc split: if_splits)

lemma str_nat_nonempty: "str_nat n \<noteq> []"
  by (subst str_nat.simps) simp

lemma str_nat_inj: "str_nat a = str_nat b \<Longrightarrow> a = b"
proof (induction a arbitrary: b rule: str_nat.induct)
  case (1 n)
  show ?case
  proof (cases "n < 10")
    case True
    then have l: "str_nat n = [digit_char n]" by (subst str_nat.simps) simp
    show ?thesis
    proof (cases "b < 10")
      case True
      then have "str_nat b = [digit_char b]" by (subst str_nat.simps) simp
      with l "1.prems" \<open>n < 10\<close> True show ?thesis using digit_char_inj by auto
    next
      case False
      then have "str_nat b = str_nat (b div 10) @ [digit_char (b mod 10)]"
        by (subst str_nat.simps) simp
      with l "1.prems" str_nat_nonempty [of "b div 10"] show ?thesis by auto
    qed
  next
    case False
    then have l: "str_nat n = str_nat (n div 10) @ [digit_char (n mod 10)]"
      by (subst str_nat.simps) simp
    show ?thesis
    proof (cases "b < 10")
      case True
      then have "str_nat b = [digit_char b]" by (subst str_nat.simps) simp
      with l "1.prems" str_nat_nonempty [of "n div 10"] show ?thesis by auto
    next
      case bf: False
      then have r: "str_nat b = str_nat (b div 10) @ [digit_char (b mod 10)]"
        by (subst str_nat.simps) simp
      from l r "1.prems" have e1: "str_nat (n div 10) = str_nat (b div 10)"
        and e2: "digit_char (n mod 10) = digit_char (b mod 10)" by auto
      from "1.IH" [OF False e1] have d: "n div 10 = b div 10" .
      from e2 have m: "n mod 10 = b mod 10" using digit_char_inj [of "n mod 10" "b mod 10"] by simp
      from d m show ?thesis by (metis div_mult_mod_eq)
    qed
  qed
qed

lemma str_nat_hd_not_minus: "hd (str_nat n) \<noteq> CHR ''-''"
proof (induction n rule: str_nat.induct)
  case (1 n)
  show ?case
  proof (cases "n < 10")
    case True
    then show ?thesis using digit_char_not_minus by (subst str_nat.simps) simp
  next
    case False
    then show ?thesis using "1.IH" str_nat_nonempty [of "n div 10"]
      by (subst str_nat.simps) simp
  qed
qed

lemma str_nat_not_minus: "str_nat n \<noteq> CHR ''-'' # xs"
  using str_nat_hd_not_minus [of n] by (auto dest: arg_cong [where f = hd])

lemma str_int_inj: "str_int a = str_int b \<Longrightarrow> a = b"
proof -
  assume e: "str_int a = str_int b"
  show ?thesis
  proof (cases "a < 0")
    case an: True
    show ?thesis
    proof (cases "b < 0")
      case True
      with an e have "str_nat (nat (- a)) = str_nat (nat (- b))" by (simp add: str_int_def)
      then have "nat (- a) = nat (- b)" by (rule str_nat_inj)
      with an True show ?thesis by simp
    next
      case False
      with an e show ?thesis using str_nat_not_minus [of "nat b" "str_nat (nat (- a))"] by (simp add: str_int_def)
    qed
  next
    case ap: False
    show ?thesis
    proof (cases "b < 0")
      case True
      with ap e show ?thesis using str_nat_not_minus [of "nat a" "str_nat (nat (- b))"] by (simp add: str_int_def)
    next
      case False
      with ap e have "str_nat (nat a) = str_nat (nat b)" by (simp add: str_int_def)
      then have "nat a = nat b" by (rule str_nat_inj)
      with ap False show ?thesis by simp
    qed
  qed
qed

subsection \<open>Steps of the captcha manager\<close>

lemma verify_math_answer:
  "captcha (cache s) u = Some (MathAnswer k) \<Longrightarrow>
     verify_captcha u (Some (str_int n)) s \<longleftrightarrow> n = k"
  by (auto simp: verify_captcha_def str_text_def str_captcha_def dest: str_int_inj)

lemma issue_math:
  "snd (generate_captcha e0 u (Some ''math'') s0) =
     s0\<lparr>cache := (cache s0)\<lparr>captcha := (captcha (cache s0))(u \<mapsto> MathAnswer (num1 e0 + num2 e0))\<rparr>\<rparr>"
  by (simp add: generate_captcha_def)

lemma record_attempt_fst: "fst (record_attempt e u s) = get_attempt_count u s + 1"
  by (simp add: record_attempt_def get_attempt_count_def Let_def split: option.splits)

lemma record_attempt_count:
  "get_attempt_count u (snd (record_attempt e u s)) = get_attempt_count u s + 1"
  by (simp add: record_attempt_def get_attempt_count_def Let_def split: option.splits)

lemma record_attempt_frame:
  "blocked_users (db (snd (record_attempt e u s))) = blocked_users (db s) \<and>
   verified_users (db (snd (record_attempt e u s))) = verified_users (db s) \<and>
   cache (snd (record_attempt e u s)) = cache s \<and>
   outbox (snd (record_attempt e u s)) = outbox s"
  by (simp add: record_attempt_def Let_def split: option.splits)

lemma generate_captcha_frame:
  "db (snd (generate_captcha e u k s)) = db s"
  by (simp add: generate_captcha_def emit_def)

lemma get_attempt_count_db: "db s = db t \<Longrightarrow> get_attempt_count u s = get_attempt_count u t"
  by (simp add: get_attempt_count_def)

lemma block_user_count:
  "get_attempt_count u (block_user_by_attempts e u a b c s) = get_attempt_count u s"
  by (simp add: block_user_by_attempts_def get_attempt_count_def split: option.splits)

lemma block_user_effect:
  "blocked_users (db (block_user_by_attempts e u a b c s)) u =
     Some \<lparr>b_username = a, b_first_name = b, b_last_name = c,
            block_reason = Some ''auto_attempts'', blocked_at = Some (now e)\<rparr> \<and>
   u \<notin> verified_users (db (block_user_by_attempts e u a b c s)) \<and>
   verified (cache (block_user_by_attempts e u a b c s)) u = None"
  by (simp add: block_user_by_attempts_def)

lemma emit_frame [simp]: "db (emit ev s) = db s" "cache (emit ev s) = cache s"
  by (simp_all add: emit_def)

lemma cache_delete_captcha_frame [simp]:
  "db (cache_delete_captcha u s) = db s"
  "captcha (cache (cache_delete_captcha u s)) u = None"
  "verified (cache (cache_delete_captcha u s)) = verified (cache s)"
  by (simp_all add: cache_delete_captcha_def)

lemma check_captcha_answering:
  assumes "setting_captcha (cache s) \<noteq> Some ''disable''"
    and "blocked_users (db s) (uid (from_user m)) = None"
    and "captcha (cache s) (uid (from_user m)) \<noteq> None"
  shows "check_captcha e m s = check_captcha_answer e m s"
  using assms by (simp add: check_captcha_def)

lemma handle_user_message_denied:
  "check_captcha e m s = (Returned False, s') \<Longrightarrow>
     handle_user_message e m s = (Returned CaptchaDenied, s')"
  by (simp add: handle_user_message_def)

lemma handle_user_message_raised:
  "check_captcha e m s = (Raised x, s') \<Longrightarrow> handle_user_message e m s = (Raised x, s')"
  by (simp add: handle_user_message_def)

lemma check_captcha_answer_stops: "fst (check_captcha_answer e m s) \<noteq> Returned True"
  by (simp add: check_captcha_answer_def Let_def
      split: prod.splits outcome.splits option.splits)

lemma handle_user_message_stopped:
  "fst (check_captcha e m s) \<noteq> Returned True \<Longrightarrow>
     snd (handle_user_message e m s) = snd (check_captcha e m s) \<and>
     fst (handle_user_message e m s) \<noteq> Returned (Forwarded f)"
  by (cases "check_captcha e m s")
    (auto simp: handle_user_message_def split: outcome.splits bool.splits)

lemma generate_captcha_valid:
  "k \<in> {Some ''math'', Some ''button'', Some ''image''} \<Longrightarrow>
     \<exists>r. fst (generate_captcha e u k s) = Returned r"
  by (auto simp: generate_captcha_def)

lemma wrong_answer_step:
  assumes "setting_captcha (cache s) \<in> {Some ''math'', Some ''button'', Some ''image''}"
    and "uid (from_user m) = u"
    and "\<not> verify_captcha u (msg_text m) s"
  shows "\<exists>s'. check_captcha_answer e m s = (Returned False, s') \<and>
           get_attempt_count u s' = get_attempt_count u s + 1"
proof -
  obtain attempts s1 where ra: "record_attempt e u s = (attempts, s1)"
    by (cases "record_attempt e u s")
  have c1: "get_attempt_count u s1 = get_attempt_count u s + 1"
    using record_attempt_count [of u e s] ra by simp
  have k1: "cache s1 = cache s"
    using record_attempt_frame [of e u s] ra by simp
  show ?thesis
  proof (cases "attempts \<ge> 3")
    case True
    define s' where "s' = cache_delete_captcha u
       (emit (SendMessage u AutoBlockedAppealOffer)
          (block_user_by_attempts e u (username (from_user m))
             (Some (first_name (from_user m))) (last_name (from_user m)) s1))"
    have 1: "check_captcha_answer e m s = (Returned False, s')"
      using assms ra True by (simp add: check_captcha_answer_def s'_def)
    have 2: "get_attempt_count u s' = get_attempt_count u s + 1"
      using c1 block_user_count [of u e]
      by (simp add: s'_def get_attempt_count_db [of "cache_delete_captcha u x" x for x]
          get_attempt_count_db [of "emit ev x" x for ev x])
    from 1 2 show ?thesis by blast
  next
    case False
    obtain r s2 where g: "generate_captcha e u (setting_captcha (cache s1)) s1 = (r, s2)"
      by (cases "generate_captcha e u (setting_captcha (cache s1)) s1")
    have d2: "db s2 = db s1"
      using generate_captcha_frame [of e u "setting_captcha (cache s1)" s1] g by simp
    obtain v where rv: "r = Returned v"
      using generate_captcha_valid [of "setting_captcha (cache s1)" e u s1] assms(1) k1 g
      by auto
    define s' where "s' = (case v of None \<Rightarrow> s2
        | Some c \<Rightarrow> if c = [] then s2
                    else emit (SendMessage (chat_id m) (IncorrectAnswer attempts c)) s2)"
    have 1: "check_captcha_answer e m s = (Returned False, s')"
      using assms ra False g rv
      by (simp add: check_captcha_answer_def s'_def split: option.splits)
    have "db s' = db s1"
      using d2 by (simp add: s'_def split: option.splits)
    then have 2: "get_attempt_count u s' = get_attempt_count u s + 1"
      using c1 get_attempt_count_db [of s' s1 u] by simp
    from 1 2 show ?thesis by blast
  qed
qed

text \<open>
  Claim C4 (math challenge round trip). A math challenge is issued to user \<open>u\<close> with
  operands \<open>a\<close> and \<open>b\<close> (any integers, so in particular those in \<open>[1, 50]\<close> that
  \<open>random.randint(1, 50)\<close> draws), the user is not blocked, and a challenge kind is
  active. While the challenge is outstanding, a message whose text is the decimal string
  of \<open>a + b\<close> is consumed, not forwarded: the user becomes verified in store and cache,
  the attempt row is deleted and the challenge is cleared. A message whose text is the
  decimal string of any other integer is denied and the user's attempt count grows by
  exactly 1.
\<close>

theorem math_challenge_round_trip:
  assumes "s = snd (generate_captcha e0 u (Some ''math'') s0)"
    and "num1 e0 = a" and "num2 e0 = b"
    and "setting_captcha (cache s0) \<in> {Some ''math'', Some ''button'', Some ''image''}"
    and "blocked_users (db s0) u = None"
    and "uid (from_user m) = u"
  shows "(msg_text m = Some (str_int (a + b)) \<longrightarrow>
           (\<exists>s'. handle_user_message e m s = (Returned CaptchaDenied, s') \<and>
              u \<in> verified_users (db s') \<and> verified (cache s') u = Some True \<and>
              verification_attempts (db s') u = None \<and> get_attempt_count u s' = 0 \<and>
              captcha (cache s') u = None)) \<and>
         (\<forall>n. n \<noteq> a + b \<and> msg_text m = Some (str_int n) \<longrightarrow>
           (\<exists>s'. handle_user_message e m s = (Returned CaptchaDenied, s') \<and>
              get_attempt_count u s' = get_attempt_count u s + 1))"
proof -
  have s: "s = s0\<lparr>cache := (cache s0)\<lparr>captcha := (captcha (cache s0))(u \<mapsto> MathAnswer (a + b))\<rparr>\<rparr>"
    using assms(1,2,3) by (simp add: issue_math)
  have out: "captcha (cache s) u = Some (MathAnswer (a + b))" by (simp add: s)
  have kind: "setting_captcha (cache s) \<in> {Some ''math'', Some ''button'', Some ''image''}"
    using assms(4) by (simp add: s)
  then have nd: "setting_captcha (cache s) \<noteq> Some ''disable''" by auto
  have nb: "blocked_users (db s) (uid (from_user m)) = None"
    using assms(5,6) by (simp add: s)
  have cc: "check_captcha e m s = check_captcha_answer e m s"
    using nd nb out assms(6) by (simp add: check_captcha_answering)
  show ?thesis
  proof (rule conjI; intro allI impI)
    assume t: "msg_text m = Some (str_int (a + b))"
    then have v: "verify_captcha u (msg_text m) s"
      using verify_math_answer [OF out, of "a + b"] by simp
    define s' where "s' = cache_delete_captcha u (reset_attempts u
        (set_user_verified u (emit (SendMessage (chat_id m) VerificationSuccessful) s)))"
    have "check_captcha_answer e m s = (Returned False, s')"
      using v assms(6) by (simp add: check_captcha_answer_def s'_def)
    with cc have h: "handle_user_message e m s = (Returned CaptchaDenied, s')"
      by (simp add: handle_user_message_denied)
    have p: "u \<in> verified_users (db s')" "verified (cache s') u = Some True"
      "verification_attempts (db s') u = None" "get_attempt_count u s' = 0"
      "captcha (cache s') u = None"
      by (simp_all add: s'_def reset_attempts_def set_user_verified_def get_attempt_count_def)
    from h p show "\<exists>s'. handle_user_message e m s = (Returned CaptchaDenied, s') \<and>
              u \<in> verified_users (db s') \<and> verified (cache s') u = Some True \<and>
              verification_attempts (db s') u = None \<and> get_attempt_count u s' = 0 \<and>
              captcha (cache s') u = None"
      by blast
  next
    fix n
    assume w: "n \<noteq> a + b \<and> msg_text m = Some (str_int n)"
    then have v: "\<not> verify_captcha u (msg_text m) s"
      using verify_math_answer [OF out, of n] by simp
    from wrong_answer_step [OF kind assms(6) v, of e] cc
    show "\<exists>s'. handle_user_message e m s = (Returned CaptchaDenied, s') \<and>
              get_attempt_count u s' = get_attempt_count u s + 1"
      by (auto simp: handle_user_message_denied)
  qed
qed

text \<open>
  Claim C5 (auto-block on exhausted attempts). An unblocked user with an outstanding
  challenge sends a wrong answer. When the stored attempt count is 2, the count becomes
  3, the user gets a \<open>blocked_users\<close> row with reason \<open>auto_attempts\<close> and loses the
  \<open>verified_users\<close> row and cached flag, and the message is denied. When the stored
  count is below 2, the count grows by one but \<open>blocked_users\<close> and \<open>verified_users\<close>
  stay as they are: no block is written before the count reaches 3.
\<close>

theorem auto_block_on_third_failure:
  assumes "setting_captcha (cache s) \<noteq> Some ''disable''"
    and "blocked_users (db s) u = None"
    and "captcha (cache s) u \<noteq> None"
    and "uid (from_user m) = u"
    and "\<not> verify_captcha u (msg_text m) s"
  shows "(get_attempt_count u s = 2 \<longrightarrow>
           (\<exists>s'. handle_user_message e m s = (Returned CaptchaDenied, s') \<and>
              get_attempt_count u s' = 3 \<and>
              blocked_users (db s') u =
                Some \<lparr>b_username = username (from_user m),
                       b_first_name = Some (first_name (from_user m)),
                       b_last_name = last_name (from_user m),
                       block_reason = Some ''auto_attempts'', blocked_at = Some (now e)\<rparr> \<and>
              u \<notin> verified_users (db s') \<and> verified (cache s') u = None)) \<and>
         (get_attempt_count u s < 2 \<longrightarrow>
            blocked_users (db (snd (handle_user_message e m s))) = blocked_users (db s) \<and>
            verified_users (db (snd (handle_user_message e m s))) = verified_users (db s) \<and>
            get_attempt_count u (snd (handle_user_message e m s)) = get_attempt_count u s + 1)"
proof -
  obtain attempts s1 where ra: "record_attempt e u s = (attempts, s1)"
    by (cases "record_attempt e u s")
  have at: "attempts = get_attempt_count u s + 1"
    using record_attempt_fst [of e u s] ra by simp
  have c1: "get_attempt_count u s1 = get_attempt_count u s + 1"
    using record_attempt_count [of u e s] ra by simp
  have f1: "blocked_users (db s1) = blocked_users (db s)" "verified_users (db s1) = verified_users (db s)"
    using record_attempt_frame [of e u s] ra by simp_all
  have cc: "check_captcha e m s = check_captcha_answer e m s"
    using assms by (simp add: check_captcha_answering)
  show ?thesis
  proof (rule conjI; rule impI)
    assume two: "get_attempt_count u s = 2"
    define s' where "s' = cache_delete_captcha u
       (emit (SendMessage u AutoBlockedAppealOffer)
          (block_user_by_attempts e u (username (from_user m))
             (Some (first_name (from_user m))) (last_name (from_user m)) s1))"
    from two at have ge: "attempts \<ge> 3" by simp
    have "check_captcha_answer e m s = (Returned False, s')"
      using assms ra ge by (simp add: check_captcha_answer_def s'_def)
    with cc have h: "handle_user_message e m s = (Returned CaptchaDenied, s')"
      by (simp add: handle_user_message_denied)
    have n3: "get_attempt_count u s' = 3"
      using c1 two block_user_count [of u e]
      by (simp add: s'_def get_attempt_count_db [of "cache_delete_captcha u x" x for x]
          get_attempt_count_db [of "emit ev x" x for ev x])
    have b: "blocked_users (db s') u =
        Some \<lparr>b_username = username (from_user m),
               b_first_name = Some (first_name (from_user m)),
               b_last_name = last_name (from_user m),
               block_reason = Some ''auto_attempts'', blocked_at = Some (now e)\<rparr>"
      "u \<notin> verified_users (db s')" "verified (cache s') u = None"
      using block_user_effect [of e u "username (from_user m)" "Some (first_name (from_user m))"
          "last_name (from_user m)" s1]
      by (simp_all add: s'_def)
    from h n3 b show "\<exists>s'. handle_user_message e m s = (Returned CaptchaDenied, s') \<and>
              get_attempt_count u s' = 3 \<and>
              blocked_users (db s') u =
                Some \<lparr>b_username = username (from_user m),
                       b_first_name = Some (first_name (from_user m)),
                       b_last_name = last_name (from_user m),
                       block_reason = Some ''auto_attempts'', blocked_at = Some (now e)\<rparr> \<and>
              u \<notin> verified_users (db s') \<and> verified (cache s') u = None"
      by blast
  next
    assume lt: "get_attempt_count u s < 2"
    with at have nge: "\<not> attempts \<ge> 3" by simp
    obtain r s2 where g: "generate_captcha e u (setting_captcha (cache s1)) s1 = (r, s2)"
      by (cases "generate_captcha e u (setting_captcha (cache s1)) s1")
    have d2: "db s2 = db s1" using generate_captcha_frame [of e u "setting_captcha (cache s1)" s1] g
      by simp
    have "db (snd (check_captcha_answer e m s)) = db s1"
      using assms ra nge g d2
      by (simp add: check_captcha_answer_def split: outcome.splits option.splits)
    then have "db (snd (handle_user_message e m s)) = db s1"
      using cc check_captcha_answer_stops [of e m s] handle_user_message_stopped [of e m s]
      by simp
    then show "blocked_users (db (snd (handle_user_message e m s))) = blocked_users (db s) \<and>
            verified_users (db (snd (handle_user_message e m s))) = verified_users (db s) \<and>
            get_attempt_count u (snd (handle_user_message e m s)) = get_attempt_count u s + 1"
      using f1 c1 get_attempt_count_db [of "snd (handle_user_message e m s)" s1 u] by simp
  qed
qed

theorem math_challenge_round_trip_witness:
  "num1 env_ex = 12 \<and> num2 env_ex = 30 \<and>
   setting_captcha (cache fresh_state_ex) \<in> {Some ''math'', Some ''button'', Some ''image''} \<and>
   blocked_users (db fresh_state_ex) 7 = None \<and>
   uid (from_user (answer_msg_ex (str_int (12 + 30)))) = 7 \<and>
   msg_text (answer_msg_ex (str_int (12 + 30))) = Some (str_int (12 + 30)) \<and>
   (\<exists>s'. handle_user_message env_ex (answer_msg_ex (str_int (12 + 30)))
            (snd (generate_captcha env_ex 7 (Some ''math'') fresh_state_ex))
          = (Returned CaptchaDenied, s') \<and>
         7 \<in> verified_users (db s') \<and> get_attempt_count 7 s' = 0 \<and>
         captcha (cache s') 7 = None)"
proof -
  have n: "num1 env_ex = 12" "num2 env_ex = 30"
    by (simp_all add: env_ex_def)
  have k: "setting_captcha (cache fresh_state_ex) \<in> {Some ''math'', Some ''button'', Some ''image''}"
    by (simp add: fresh_state_ex_def empty_cache_def)
  have b: "blocked_users (db fresh_state_ex) 7 = None"
    by (simp add: fresh_state_ex_def empty_store_def)
  have u: "uid (from_user (answer_msg_ex (str_int (12 + 30)))) = 7"
    by (simp add: answer_msg_ex_def user_ex_def)
  have t: "msg_text (answer_msg_ex (str_int (12 + 30))) = Some (str_int (12 + 30))"
    by (simp add: answer_msg_ex_def)
  from math_challenge_round_trip [OF refl n k b u, of env_ex] t n k b u
  show ?thesis by blast
qed

theorem auto_block_on_third_failure_witness:
  "setting_captcha (cache pending_state_ex) \<noteq> Some ''disable'' \<and>
   blocked_users (db pending_state_ex) 7 = None \<and>
   captcha (cache pending_state_ex) 7 \<noteq> None \<and>
   uid (from_user (answer_msg_ex (str_int 41))) = 7 \<and>
   \<not> verify_captcha 7 (msg_text (answer_msg_ex (str_int 41))) pending_state_ex \<and>
   get_attempt_count 7 pending_state_ex = 2 \<and>
   (\<exists>s'. handle_user_message env_ex (answer_msg_ex (str_int 41)) pending_state_ex
          = (Returned CaptchaDenied, s') \<and>
         get_attempt_count 7 s' = 3 \<and>
         map_option block_reason (blocked_users (db s') 7) = Some (Some ''auto_attempts'') \<and>
         7 \<notin> verified_users (db s'))"
proof -
  have k: "setting_captcha (cache pending_state_ex) \<noteq> Some ''disable''"
    by (simp add: pending_state_ex_def empty_cache_def)
  have b: "blocked_users (db pending_state_ex) 7 = None"
    by (simp add: pending_state_ex_def empty_store_def)
  have c: "captcha (cache pending_state_ex) 7 = Some (MathAnswer 42)"
    by (simp add: pending_state_ex_def)
  then have c': "captcha (cache pending_state_ex) 7 \<noteq> None" by simp
  have u: "uid (from_user (answer_msg_ex (str_int 41))) = 7"
    by (simp add: answer_msg_ex_def user_ex_def)
  have v: "\<not> verify_captcha 7 (msg_text (answer_msg_ex (str_int 41))) pending_state_ex"
    using verify_math_answer [OF c, of 41] by (simp add: answer_msg_ex_def)
  have g: "get_attempt_count 7 pending_state_ex = 2"
    by (simp add: get_attempt_count_def pending_state_ex_def empty_store_def)
  from auto_block_on_third_failure [OF k b c' u v, of env_ex] g
  obtain s' where
    "handle_user_message env_ex (answer_msg_ex (str_int 41)) pending_state_ex
       = (Returned CaptchaDenied, s')"
    "get_attempt_count 7 s' = 3"
    "map_option block_reason (blocked_users (db s') 7) = Some (Some ''auto_attempts'')"
    "7 \<notin> verified_users (db s')"
    by auto
  with k b c' u v g show ?thesis by blast
qed
text \<open>
  Claim C10 (frame of the blocked-user deny path). A message from a user who has a
  \<open>blocked_users\<close> row and is not in appeal verification is not forwarded: it is stopped
  by the captcha check or rejected as blocked. The tables \<open>topics\<close>, \<open>messages\<close>,
  \<open>verified_users\<close>, \<open>verification_attempts\<close> and \<open>appeal_requests\<close>, the
  \<open>blocked_users\<close> rows of all other users and the cache are unchanged, and the user's
  own row keeps its \<open>block_reason\<close> and \<open>blocked_at\<close>: it is either untouched or has
  its three display fields set from the message's sender.
\<close>

theorem blocked_deny_frame:
  assumes "blocked_users (db s) u = Some row"
    and "uid (from_user m) = u"
    and "appeal_verification (cache s) u \<noteq> Some True"
  shows "\<exists>r s'. handle_user_message e m s = (Returned r, s') \<and>
           (r = CaptchaDenied \<or> r = BlockedRejected) \<and>
           topics (db s') = topics (db s) \<and> messages (db s') = messages (db s) \<and>
           verified_users (db s') = verified_users (db s) \<and>
           verification_attempts (db s') = verification_attempts (db s) \<and>
           appeal_requests (db s') = appeal_requests (db s) \<and>
           (\<forall>v. v \<noteq> u \<longrightarrow> blocked_users (db s') v = blocked_users (db s) v) \<and>
           (blocked_users (db s') u = Some row \<or>
            blocked_users (db s') u =
              Some (row\<lparr>b_username := username (from_user m),
                         b_first_name := Some (first_name (from_user m)),
                         b_last_name := last_name (from_user m)\<rparr>)) \<and>
           map_option block_reason (blocked_users (db s') u) = Some (block_reason row) \<and>
           map_option blocked_at (blocked_users (db s') u) = Some (blocked_at row) \<and>
           cache s' = cache s"
proof (cases "setting_captcha (cache s) = Some ''disable''")
  case True
  define s' where "s' = blocked_auto_reply m (update_blocked_user_info (from_user m) s)"
  have "check_captcha e m s = (Returned True, s)"
    using True by (simp add: check_captcha_def)
  then have h: "handle_user_message e m s = (Returned BlockedRejected, s')"
    using assms by (simp add: handle_user_message_def s'_def)
  have d: "db s' = (db s)\<lparr>blocked_users := (blocked_users (db s))
      (u \<mapsto> row\<lparr>b_username := username (from_user m),
                 b_first_name := Some (first_name (from_user m)),
                 b_last_name := last_name (from_user m)\<rparr>)\<rparr>"
    and c: "cache s' = cache s"
    using assms
    by (simp_all add: s'_def blocked_auto_reply_def update_blocked_user_info_def
        split: option.splits)
  from h show ?thesis by (simp add: d c)
next
  case False
  define s' where "s' = emit (SendMessage (chat_id m) BlockedAppealOffer) s"
  have "check_captcha e m s = (Returned False, s')"
    using False assms by (simp add: check_captcha_def check_captcha_blocked_def s'_def)
  then have h: "handle_user_message e m s = (Returned CaptchaDenied, s')"
    by (simp add: handle_user_message_denied)
  from h assms(1) show ?thesis by (simp add: s'_def)
qed

theorem blocked_deny_frame_witness:
  "blocked_users (db blocked_state_ex) 7 = Some blocked_row_ex \<and>
   uid (from_user (answer_msg_ex ''hello'')) = 7 \<and>
   appeal_verification (cache blocked_state_ex) 7 \<noteq> Some True \<and>
   (8::int) \<noteq> 7 \<and>
   (\<exists>r s'. handle_user_message env_ex (answer_msg_ex ''hello'') blocked_state_ex = (Returned r, s') \<and>
      (r = CaptchaDenied \<or> r = BlockedRejected) \<and>
      messages (db s') = messages (db blocked_state_ex) \<and>
      blocked_users (db s') 8 = blocked_users (db blocked_state_ex) 8 \<and>
      map_option block_reason (blocked_users (db s') 7) = Some (block_reason blocked_row_ex))"
proof -
  have a: "blocked_users (db blocked_state_ex) 7 = Some blocked_row_ex"
    by (simp add: blocked_state_ex_def)
  have u: "uid (from_user (answer_msg_ex ''hello'')) = 7"
    by (simp add: answer_msg_ex_def user_ex_def)
  have v: "appeal_verification (cache blocked_state_ex) 7 \<noteq> Some True"
    by (simp add: blocked_state_ex_def empty_cache_def)
  from blocked_deny_frame [OF a u v, of env_ex]
  obtain r s' where
    "handle_user_message env_ex (answer_msg_ex ''hello'') blocked_state_ex = (Returned r, s')"
    "r = CaptchaDenied \<or> r = BlockedRejected"
    "messages (db s') = messages (db blocked_state_ex)"
    "\<forall>v. v \<noteq> 7 \<longrightarrow> blocked_users (db s') v = blocked_users (db blocked_state_ex) v"
    "map_option block_reason (blocked_users (db s') 7) = Some (block_reason blocked_row_ex)"
    by blast
  with a u v show ?thesis by auto
qed

subsection \<open>Thread loss\<close>

lemma find_filter_None:
  "(\<forall>x\<in>set xs. P x \<longrightarrow> \<not> Q x) \<Longrightarrow> find P (filter Q xs) = None"
  by (induction xs) auto

text \<open>
  Claim C7 (thread-loss recovery). When the transport answers a forward into thread \<open>t\<close>
  with an error that says the message thread was not found, the forward deletes every
  \<open>topics\<close> row of thread \<open>t\<close> and no other, drops the cache entries of the user id and
  of the thread id, writes no correlation row, sends nothing further, and returns \<open>None\<close>:
  the message is not retried. When thread \<open>t\<close> was the user's only thread, the next
  message of the same user finds neither cache entry nor row, so a new forum topic is
  created and recorded for the user.
\<close>

theorem thread_loss_recovery:
  assumes "transport e = ApiTelegramException descr"
    and "str_contains ''message thread not found'' descr"
    and "content_type m \<in> set supported_content_types"
    and "uid (from_user m) = u"
  shows "\<exists>s'. forward_to_group e m t s = (Returned None, s') \<and>
           topics (db s') = filter (\<lambda>row. t_thread_id row \<noteq> t) (topics (db s)) \<and>
           (\<forall>row\<in>set (topics (db s')). t_thread_id row \<noteq> t) \<and>
           chat_threadid (cache s') u = None \<and> threadid_userid (cache s') t = None \<and>
           messages (db s') = messages (db s) \<and> outbox s' = outbox s \<and>
           ((\<forall>row\<in>set (topics (db s)). t_user_id row = u \<longrightarrow> t_thread_id row = t) \<longrightarrow>
              (\<forall>e' m' t'. uid (from_user m') = u \<and> create_forum_topic e' = Some t' \<longrightarrow>
                 (\<exists>s''. get_or_create_thread e' m' s' = (Some t', s'') \<and>
                    topics (db s'') = topics (db s') @ [\<lparr>t_user_id = u, t_thread_id = t'\<rparr>] \<and>
                    chat_threadid (cache s'') u = Some t')))"
proof -
  define s' where "s' = s\<lparr>db := (db s)\<lparr>topics := filter (\<lambda>row. t_thread_id row \<noteq> t) (topics (db s))\<rparr>,
      cache := (cache s)\<lparr>threadid_userid := (threadid_userid (cache s))(t := None),
                         chat_threadid := (chat_threadid (cache s))(u := None)\<rparr>\<rparr>"
  have f: "forward_to_group e m t s = (Returned None, s')"
    using assms by (simp add: forward_to_group_def send_message_by_type_def s'_def)
  have p: "topics (db s') = filter (\<lambda>row. t_thread_id row \<noteq> t) (topics (db s))"
    "chat_threadid (cache s') u = None" "threadid_userid (cache s') t = None"
    "messages (db s') = messages (db s)" "outbox s' = outbox s"
    by (simp_all add: s'_def)
  have q: "\<forall>row\<in>set (topics (db s')). t_thread_id row \<noteq> t"
    by (simp add: p(1))
  have n: "\<exists>s''. get_or_create_thread e' m' s' = (Some t', s'') \<and>
              topics (db s'') = topics (db s') @ [\<lparr>t_user_id = u, t_thread_id = t'\<rparr>] \<and>
              chat_threadid (cache s'') u = Some t'"
    if only: "\<forall>row\<in>set (topics (db s)). t_user_id row = u \<longrightarrow> t_thread_id row = t"
      and nx: "uid (from_user m') = u \<and> create_forum_topic e' = Some t'" for e' m' t'
  proof -
    have "find (\<lambda>row. t_user_id row = u) (topics (db s')) = None"
      unfolding p(1) using only by (intro find_filter_None) auto
    then show ?thesis
      using nx p(2) by (simp add: get_or_create_thread_def Let_def emit_def)
  qed
  from f p q n show ?thesis by blast
qed

theorem thread_loss_recovery_witness:
  "transport thread_lost_env_ex = ApiTelegramException ''Bad Request: message thread not found'' \<and>
   str_contains ''message thread not found'' ''Bad Request: message thread not found'' \<and>
   content_type (answer_msg_ex ''hello'') \<in> set supported_content_types \<and>
   uid (from_user (answer_msg_ex ''hello'')) = 7 \<and>
   topics (db routed_state_ex) =
     [\<lparr>t_user_id = 7, t_thread_id = 5\<rparr>, \<lparr>t_user_id = 8, t_thread_id = 6\<rparr>] \<and>
   create_forum_topic env_ex = Some 9 \<and>
   (\<exists>s' s''. forward_to_group thread_lost_env_ex (answer_msg_ex ''hello'') 5 routed_state_ex
                = (Returned None, s') \<and>
      topics (db s') = [\<lparr>t_user_id = 8, t_thread_id = 6\<rparr>] \<and>
      chat_threadid (cache s') 7 = None \<and> threadid_userid (cache s') 5 = None \<and>
      get_or_create_thread env_ex (answer_msg_ex ''again'') s' = (Some 9, s'') \<and>
      topics (db s'') = [\<lparr>t_user_id = 8, t_thread_id = 6\<rparr>, \<lparr>t_user_id = 7, t_thread_id = 9\<rparr>])"
proof -
  have a: "transport thread_lost_env_ex =
      ApiTelegramException ''Bad Request: message thread not found''"
    by (simp add: thread_lost_env_ex_def)
  have b: "str_contains ''message thread not found'' ''Bad Request: message thread not found''"
    by simp
  have c: "content_type (answer_msg_ex ''hello'') \<in> set supported_content_types"
    by (simp add: answer_msg_ex_def supported_content_types_def)
  have u: "uid (from_user (answer_msg_ex ''hello'')) = 7"
    "uid (from_user (answer_msg_ex ''again'')) = 7"
    by (simp_all add: answer_msg_ex_def user_ex_def)
  have tp: "topics (db routed_state_ex) =
      [\<lparr>t_user_id = 7, t_thread_id = 5\<rparr>, \<lparr>t_user_id = 8, t_thread_id = 6\<rparr>]"
    by (simp add: routed_state_ex_def empty_store_def)
  then have o: "\<forall>row\<in>set (topics (db routed_state_ex)). t_user_id row = 7 \<longrightarrow> t_thread_id row = 5"
    by simp
  have k: "create_forum_topic env_ex = Some 9"
    by (simp add: env_ex_def)
  have t0: "filter (\<lambda>row. t_thread_id row \<noteq> 5) (topics (db routed_state_ex)) =
      [\<lparr>t_user_id = 8, t_thread_id = 6\<rparr>]"
    by (simp add: routed_state_ex_def empty_store_def)
  from thread_loss_recovery [OF a b c u(1), of 5 routed_state_ex] o
  obtain s' where s':
    "forward_to_group thread_lost_env_ex (answer_msg_ex ''hello'') 5 routed_state_ex
       = (Returned None, s')"
    "topics (db s') = filter (\<lambda>row. t_thread_id row \<noteq> 5) (topics (db routed_state_ex))"
    "chat_threadid (cache s') 7 = None" "threadid_userid (cache s') 5 = None"
    "\<forall>e' m' t'. uid (from_user m') = 7 \<and> create_forum_topic e' = Some t' \<longrightarrow>
       (\<exists>s''. get_or_create_thread e' m' s' = (Some t', s'') \<and>
          topics (db s'') = topics (db s') @ [\<lparr>t_user_id = 7, t_thread_id = t'\<rparr>] \<and>
          chat_threadid (cache s'') 7 = Some t')"
    by blast
  from s'(5) u(2) k obtain s'' where
    "get_or_create_thread env_ex (answer_msg_ex ''again'') s' = (Some 9, s'')"
    "topics (db s'') = topics (db s') @ [\<lparr>t_user_id = 7, t_thread_id = 9\<rparr>]"
    by blast
  with s'(1-4) t0 a b c u(1) tp k show ?thesis by auto
qed

subsection \<open>Callback dispatch\<close>

text \<open>What the dispatch does with a payload: one that is the text \<open>null\<close> or that does not
  parse is dropped; one that parses to anything but an object with an \<open>action\<close> entry makes
  the subscript raise, and the exception leaves the handler.\<close>

lemma callback_without_action:
  assumes "call_data call \<noteq> ''null''"
    and "loads (call_data call) = Some data"
    and "\<forall>items. data = JObject items \<longrightarrow> map_of items ''action'' = None"
  shows "\<exists>x. handle_callback_query loads e call s = (Raised x, s)"
  using assms by (cases data) (auto simp: handle_callback_query_def)

lemma callback_unparseable_dropped:
  "call_data call = ''null'' \<or> loads (call_data call) = None \<Longrightarrow>
     handle_callback_query loads e call s = (Returned Dropped, s)"
  by (auto simp: handle_callback_query_def)

text \<open>
  Claim C3, at the failing input. The claim is that every malformed payload, also valid
  JSON without an \<open>action\<close> entry, is logged and dropped without an exception leaving
  the handler. On the payload \<open>{}\<close>, which parses to the empty object, the handler raises
  \<open>KeyError\<close>: only \<open>JSONDecodeError\<close> is caught around \<open>data["action"]\<close>.
\<close>

theorem callback_empty_object_raises:
  "handle_callback_query loads_ex env_ex empty_object_call_ex fresh_state_ex =
     (Raised KeyError, fresh_state_ex)"
  by (simp add: handle_callback_query_def loads_ex_def empty_object_call_ex_def)

subsection \<open>Schema migration\<close>

text \<open>
  Claim C9, as stated, at a concrete input. On the prerequisite tables as the
  repository's tests create them, where \<open>settings.key\<close> carries no uniqueness
  constraint, the first run of the migration inserts the two default settings rows and
  the second run inserts them again: applying the migration twice does not give the
  store that applying it once gives.
\<close>

theorem migration_duplicates_settings_counterexample:
  "map_option rows (upgrade test_db_ex ''settings'') =
     Some [setting_row ''appeal_mode'' ''manual'', setting_row ''captcha_image_enabled'' ''disable''] \<and>
   map_option rows (upgrade (upgrade test_db_ex) ''settings'') =
     Some [setting_row ''appeal_mode'' ''manual'', setting_row ''captcha_image_enabled'' ''disable'',
           setting_row ''appeal_mode'' ''manual'', setting_row ''captcha_image_enabled'' ''disable''] \<and>
   upgrade (upgrade test_db_ex) \<noteq> upgrade test_db_ex"
proof -
  have 1: "map_option rows (upgrade test_db_ex ''settings'') =
     Some [setting_row ''appeal_mode'' ''manual'', setting_row ''captcha_image_enabled'' ''disable'']"
    by (simp add: upgrade_def guarded_def insert_or_ignore_def create_table_if_not_exists_def
        add_block_reason_def alter_table_add_column_def table_info_def conflicts_def
        add_column_def insert_row_def setting_row_def test_db_ex_def)
  have 2: "map_option rows (upgrade (upgrade test_db_ex) ''settings'') =
     Some [setting_row ''appeal_mode'' ''manual'', setting_row ''captcha_image_enabled'' ''disable'',
           setting_row ''appeal_mode'' ''manual'', setting_row ''captcha_image_enabled'' ''disable'']"
    by (simp add: upgrade_def guarded_def insert_or_ignore_def create_table_if_not_exists_def
        add_block_reason_def alter_table_add_column_def table_info_def conflicts_def
        add_column_def insert_row_def setting_row_def test_db_ex_def)
  have "upgrade (upgrade test_db_ex) \<noteq> upgrade test_db_ex"
  proof
    assume "upgrade (upgrade test_db_ex) = upgrade test_db_ex"
    then have "map_option rows (upgrade (upgrade test_db_ex) ''settings'') =
        map_option rows (upgrade test_db_ex ''settings'')" by simp
    then show False unfolding 1 2 by simp
  qed
  with 1 2 show ?thesis by simp
qed

text \<open>Each guarded step as a change of one table.\<close>

lemma guarded_create:
  "guarded (create_table_if_not_exists n t) d = (if d n = None then d(n \<mapsto> t) else d)"
  by (auto simp: guarded_def create_table_if_not_exists_def)

lemma guarded_add_block_reason:
  "guarded add_block_reason d =
     (case d ''blocked_users'' of
        None \<Rightarrow> d
      | Some t \<Rightarrow>
          if ''block_reason'' \<in> set (columns t) then d
          else d(''blocked_users'' \<mapsto> add_column ''block_reason'' (SqlText ''manual'') t))"
  by (simp add: guarded_def add_block_reason_def alter_table_add_column_def table_info_def
      split: option.splits)

lemma guarded_insert:
  "guarded (insert_or_ignore n r) d =
     (case d n of
        None \<Rightarrow> d
      | Some t \<Rightarrow> if set (map fst r) \<subseteq> set (columns t) then d(n \<mapsto> insert_row r t) else d)"
  by (simp add: guarded_def insert_or_ignore_def split: option.splits)

lemma insert_row_schema [simp]:
  "columns (insert_row r t) = columns t" "unique_columns (insert_row r t) = unique_columns t"
  by (simp_all add: insert_row_def)

lemma conflicts_insert_row:
  "conflicts t r \<Longrightarrow> conflicts (insert_row x t) r"
  by (auto simp: conflicts_def insert_row_def)

lemma conflicts_after_insert:
  "c \<in> set (unique_columns t) \<Longrightarrow> map_of r c \<noteq> None \<Longrightarrow> conflicts (insert_row r t) r"
  by (auto simp: conflicts_def insert_row_def)

lemma insert_row_again: "conflicts t r \<Longrightarrow> insert_row r t = t"
  by (simp add: insert_row_def)

lemma guarded_create_at:
  "guarded (create_table_if_not_exists n t) d m =
     (if m = n then Some (case d n of None \<Rightarrow> t | Some x \<Rightarrow> x) else d m)"
  by (auto simp: guarded_create)

lemma guarded_add_block_reason_at:
  "guarded add_block_reason d m =
     (if m = ''blocked_users'' then map_option settled (d m) else d m)"
  by (auto simp: guarded_add_block_reason settled_def split: option.splits)

lemma guarded_insert_at:
  "guarded (insert_or_ignore n r) d m =
     (if m = n then
        map_option (\<lambda>t. if set (map fst r) \<subseteq> set (columns t) then insert_row r t else t) (d m)
      else d m)"
  by (auto simp: guarded_insert split: option.splits)

lemma upgrade_verification_attempts:
  "upgrade d ''verification_attempts'' =
     Some (case d ''verification_attempts'' of None \<Rightarrow> verification_attempts_table | Some t \<Rightarrow> t)"
  by (simp add: upgrade_def guarded_create_at guarded_add_block_reason_at guarded_insert_at)

lemma upgrade_appeal_requests:
  "upgrade d ''appeal_requests'' =
     Some (case d ''appeal_requests'' of None \<Rightarrow> appeal_requests_table | Some t \<Rightarrow> t)"
  by (simp add: upgrade_def guarded_create_at guarded_add_block_reason_at guarded_insert_at)

lemma upgrade_blocked_users:
  "upgrade d ''blocked_users'' = map_option settled (d ''blocked_users'')"
  by (simp add: upgrade_def guarded_create_at guarded_add_block_reason_at guarded_insert_at)

lemma setting_row_columns [simp]: "fst ` set (setting_row k v) = {''key'', ''value''}"
  by (auto simp: setting_row_def)

lemma upgrade_settings:
  "upgrade d ''settings'' = map_option defaults_added (d ''settings'')"
  by (cases "d ''settings''")
    (simp_all add: upgrade_def guarded_create_at guarded_add_block_reason_at guarded_insert_at
      defaults_added_def)

lemma upgrade_other:
  "n \<noteq> ''verification_attempts'' \<Longrightarrow> n \<noteq> ''appeal_requests'' \<Longrightarrow> n \<noteq> ''blocked_users'' \<Longrightarrow>
   n \<noteq> ''settings'' \<Longrightarrow> upgrade d n = d n"
  by (simp add: upgrade_def guarded_create_at guarded_add_block_reason_at guarded_insert_at)

lemma settled_again: "settled (settled t) = settled t"
  by (simp add: settled_def add_column_def)

lemma settled_schema:
  "unique_columns (settled t) = unique_columns t"
  by (simp add: settled_def add_column_def)

lemma defaults_added_schema:
  "columns (defaults_added t) = columns t" "unique_columns (defaults_added t) = unique_columns t"
  by (simp_all add: defaults_added_def)

lemma setting_row_key: "map_of (setting_row k v) ''key'' \<noteq> None"
  by (simp add: setting_row_def)

lemma defaults_added_again:
  assumes "''key'' \<in> set (unique_columns t)"
  shows "defaults_added (defaults_added t) = defaults_added t"
proof (cases "''key'' \<in> set (columns t) \<and> ''value'' \<in> set (columns t)")
  case False
  then have "defaults_added t = t" by (auto simp: defaults_added_def)
  then show ?thesis by simp
next
  case True
  define r4 where "r4 = setting_row ''appeal_mode'' ''manual''"
  define r5 where "r5 = setting_row ''captcha_image_enabled'' ''disable''"
  define t1 where "t1 = insert_row r4 t"
  define t2 where "t2 = insert_row r5 t1"
  have d: "defaults_added t = t2"
    using True by (simp add: defaults_added_def t2_def t1_def r4_def r5_def)
  have u1: "''key'' \<in> set (unique_columns t1)" using assms by (simp add: t1_def)
  have "conflicts t1 r4"
    unfolding t1_def using assms setting_row_key [of "''appeal_mode''" "''manual''"]
    by (intro conflicts_after_insert [of "''key''"]) (simp_all add: r4_def)
  then have c4: "conflicts t2 r4" unfolding t2_def by (rule conflicts_insert_row)
  have c5: "conflicts t2 r5"
    unfolding t2_def using u1 setting_row_key [of "''captcha_image_enabled''" "''disable''"]
    by (intro conflicts_after_insert [of "''key''"]) (simp_all add: r5_def)
  have cols: "''key'' \<in> set (columns t2) \<and> ''value'' \<in> set (columns t2)"
    using True by (simp add: t2_def t1_def)
  have "defaults_added t2 = insert_row r5 (insert_row r4 t2)"
    using cols by (simp add: defaults_added_def r4_def r5_def)
  also have "\<dots> = t2" using c4 c5 by (simp add: insert_row_again)
  finally show ?thesis by (simp add: d)
qed

text \<open>
  Claim C9, amended. Running the migration again on a store that went through it never
  raises (every statement is guarded), changes no table's columns or constraints, and
  changes no table other than \<open>settings\<close>. When the \<open>settings\<close> table has a uniqueness
  constraint on \<open>key\<close>, or there is no such table, the second run changes nothing at all:
  applying the migration twice yields the store that applying it once yields.
\<close>

theorem upgrade_rerun:
  "(\<forall>n. map_option columns (upgrade (upgrade d) n) = map_option columns (upgrade d n) \<and>
        map_option unique_columns (upgrade (upgrade d) n) =
          map_option unique_columns (upgrade d n)) \<and>
   (\<forall>n. n \<noteq> ''settings'' \<longrightarrow> upgrade (upgrade d) n = upgrade d n) \<and>
   ((\<forall>t. d ''settings'' = Some t \<longrightarrow> ''key'' \<in> set (unique_columns t)) \<longrightarrow>
      upgrade (upgrade d) = upgrade d)"
proof -
  have va: "upgrade (upgrade d) ''verification_attempts'' = upgrade d ''verification_attempts''"
    by (simp add: upgrade_verification_attempts)
  have ar: "upgrade (upgrade d) ''appeal_requests'' = upgrade d ''appeal_requests''"
    by (simp add: upgrade_appeal_requests)
  have bu: "upgrade (upgrade d) ''blocked_users'' = upgrade d ''blocked_users''"
    by (cases "d ''blocked_users''") (simp_all add: upgrade_blocked_users settled_again)
  have other: "upgrade (upgrade d) n = upgrade d n"
    if "n \<noteq> ''verification_attempts''" "n \<noteq> ''appeal_requests''" "n \<noteq> ''blocked_users''"
      "n \<noteq> ''settings''" for n
    using that by (simp add: upgrade_other)
  have rest: "upgrade (upgrade d) n = upgrade d n" if "n \<noteq> ''settings''" for n
  proof (cases "n = ''verification_attempts'' \<or> n = ''appeal_requests'' \<or> n = ''blocked_users''")
    case True
    then show ?thesis using va ar bu by (elim disjE) simp_all
  next
    case False
    then show ?thesis using that by (intro other) simp_all
  qed
  have st: "map_option columns (upgrade (upgrade d) ''settings'') =
        map_option columns (upgrade d ''settings'') \<and>
      map_option unique_columns (upgrade (upgrade d) ''settings'') =
        map_option unique_columns (upgrade d ''settings'')"
    by (cases "d ''settings''") (simp_all add: upgrade_settings defaults_added_schema)
  have schema: "map_option columns (upgrade (upgrade d) n) = map_option columns (upgrade d n) \<and>
      map_option unique_columns (upgrade (upgrade d) n) = map_option unique_columns (upgrade d n)"
    for n
    using st rest [of n] by (cases "n = ''settings''") simp_all
  have keyed: "upgrade (upgrade d) = upgrade d"
    if k: "\<forall>t. d ''settings'' = Some t \<longrightarrow> ''key'' \<in> set (unique_columns t)"
  proof (rule ext)
    fix n
    have "upgrade (upgrade d) ''settings'' = upgrade d ''settings''"
      using k by (cases "d ''settings''") (simp_all add: upgrade_settings defaults_added_again)
    then show "upgrade (upgrade d) n = upgrade d n"
      using rest [of n] by (cases "n = ''settings''") simp_all
  qed
  show ?thesis
  proof (intro conjI)
    show "\<forall>n. map_option columns (upgrade (upgrade d) n) = map_option columns (upgrade d n) \<and>
        map_option unique_columns (upgrade (upgrade d) n) =
          map_option unique_columns (upgrade d n)"
      using schema by (intro allI)
    show "\<forall>n. n \<noteq> ''settings'' \<longrightarrow> upgrade (upgrade d) n = upgrade d n"
      using rest by (intro allI impI)
    show "(\<forall>t. d ''settings'' = Some t \<longrightarrow> ''key'' \<in> set (unique_columns t)) \<longrightarrow>
      upgrade (upgrade d) = upgrade d"
      using keyed by (intro impI)
  qed
qed

theorem upgrade_rerun_witness:
  "map_option unique_columns (keyed_db_ex ''settings'') = Some [''key''] \<and>
   upgrade (upgrade keyed_db_ex) = upgrade keyed_db_ex \<and>
   upgrade (upgrade keyed_db_ex) ''blocked_users'' = upgrade keyed_db_ex ''blocked_users''"
proof -
  have u: "map_option unique_columns (keyed_db_ex ''settings'') = Some [''key'']"
    by (simp add: keyed_db_ex_def)
  then have k: "\<forall>t. keyed_db_ex ''settings'' = Some t \<longrightarrow> ''key'' \<in> set (unique_columns t)"
    by auto
  from upgrade_rerun [of keyed_db_ex] k have "upgrade (upgrade keyed_db_ex) = upgrade keyed_db_ex"
    by blast
  with u show ?thesis by simp
qed

end
